theory Spec2Isabelle
  imports Main "HOL-Library.AList"
begin

section \<open>Python values, dictionaries and exceptions\<close>

text \<open>
  The values the client handles are decoded JSON and the keyword arguments it passes on:
  \<open>None\<close>, booleans, integers, strings, lists, tuples and dictionaries with string keys.
  A dictionary is the list of its items in insertion order.
\<close>

datatype pyval =
    PNone
  | PBool bool
  | PInt int
  | PStr string
  | PList "pyval list"
  | PTuple "pyval list"
  | PDict "(string \<times> pyval) list"

type_synonym 'v dict = "(string \<times> 'v) list"

text \<open>
  The exceptions of the client. \<open>raise X from e\<close> keeps \<open>e\<close> as the cause.
  \<open>BadApiResponse\<close> carries its positional arguments. \<open>PreconditionFailure\<close> is the
  "requires login" error of the authentication guard.
\<close>

datatype error =
    RequestException
  | JSONDecodeError
  | KeyError string
  | TypeError
  | ValueError
  | BadApiResponse "string list" "error option"
  | LoginError error
  | PreconditionFailure

definition bind :: "error + 'a \<Rightarrow> ('a \<Rightarrow> error + 'b) \<Rightarrow> error + 'b" where
  "bind m f = (case m of Inl e \<Rightarrow> Inl e | Inr v \<Rightarrow> f v)"

text \<open>\<open>d[k]\<close>: a missing key of a dictionary is a KeyError, a string subscript on any
  other value is a TypeError.\<close>

definition getitem :: "pyval \<Rightarrow> string \<Rightarrow> error + pyval" where
  "getitem v k =
     (case v of
        PDict d \<Rightarrow> (case map_of d k of None \<Rightarrow> Inl (KeyError k) | Some x \<Rightarrow> Inr x)
      | _ \<Rightarrow> Inl TypeError)"

text \<open>\<open>{**a, **b}\<close>: the items of \<open>b\<close> are stored into \<open>a\<close> one by one; a key already
  present keeps its place and takes the new value.\<close>

definition dict_merge :: "'v dict \<Rightarrow> 'v dict \<Rightarrow> 'v dict" where
  "dict_merge a b = fold (\<lambda>(k, v) acc. AList.update k v acc) b a"

subsection \<open>Decimal rendering of integers\<close>

definition digit_char :: "nat \<Rightarrow> char" where
  "digit_char d = ''0123456789'' ! d"

function str_nat :: "nat \<Rightarrow> string" where
  "str_nat n = (if n < 10 then [digit_char n] else str_nat (n div 10) @ [digit_char (n mod 10)])"
  by pat_completeness auto
termination
  by (relation "measure id") auto

declare str_nat.simps [simp del]

definition str_int :: "int \<Rightarrow> string" where
  "str_int i = (if i < 0 then CHR ''-'' # str_nat (nat (- i)) else str_nat (nat i))"

text \<open>\<open>str(v)\<close> as an f-string applies it. The rendering of containers is Python's
  \<open>repr\<close>, which is left to the parameter \<open>rp\<close>.\<close>

definition py_str :: "(pyval \<Rightarrow> string) \<Rightarrow> pyval \<Rightarrow> string" where
  "py_str rp v =
     (case v of
        PStr s \<Rightarrow> s
      | PInt n \<Rightarrow> str_int n
      | PNone \<Rightarrow> ''None''
      | PBool b \<Rightarrow> (if b then ''True'' else ''False'')
      | _ \<Rightarrow> rp v)"

text \<open>A member of an enum class of \<open>pixivapi.enums\<close>: its name and its \<open>.value\<close>.\<close>

datatype enum = Enum string pyval

fun enum_value :: "enum \<Rightarrow> pyval" where
  "enum_value (Enum n v) = v"

section \<open>Session, transport and client state\<close>

text \<open>The keyword arguments of one \<open>session.request\<close> call.\<close>

record Request =
  http_method :: string
  url :: string
  params :: "pyval dict option"
  hdrs :: "string dict option"
  data :: "pyval dict option"

record Response =
  status_code :: int
  resp_text :: string

text \<open>A call of the transport raises \<open>RequestException\<close> or returns a response.\<close>

datatype outcome = Raised | Returned Response

text \<open>The session holds the default headers; \<open>calls\<close> lists the requests that reached
  the transport, oldest first.\<close>

record Session =
  headers :: "string dict"
  calls :: "Request list"

text \<open>
  What lies outside the client: the transport's answer to a request made on a session,
  the JSON decoder behind \<open>response.json()\<close> (\<open>None\<close> when it raises JSONDecodeError),
  \<open>repr\<close> of containers, \<open>format_bool\<close> of \<open>pixivapi.common\<close>, and the lookup of a
  \<open>Visibility\<close> member by its value (\<open>None\<close> when the value is no member's).
\<close>

record Env =
  send :: "Session \<Rightarrow> Request \<Rightarrow> outcome"
  json_loads :: "string \<Rightarrow> pyval option"
  py_repr :: "pyval \<Rightarrow> string"
  format_bool :: "bool \<Rightarrow> string"
  Visibility :: "pyval \<Rightarrow> enum option"

text \<open>Modelled from the spec: \<open>Struct\<close> of \<open>pixivapi.common\<close> is outside the source;
  the spec describes it as a permissive attribute-access wrapper over a JSON object.\<close>

datatype struct = Struct pyval

record Client =
  language :: string
  client_id :: string
  client_secret :: string
  account :: "struct option"
  access_token :: pyval
  refresh_token :: pyval
  session :: Session
  obj_id :: nat

definition AUTH_URL :: string where
  "AUTH_URL = ''https://oauth.secure.pixiv.net/auth/token''"

definition BASE_URL :: string where
  "BASE_URL = ''https://app-api.pixiv.net''"

definition FILTER :: string where
  "FILTER = ''for_ios''"

text \<open>\<open>Client.__init__\<close>. \<open>fresh\<close> is the new \<open>requests.Session()\<close>, \<open>HEADERS\<close> the
  constant of \<open>pixivapi.common\<close>, \<open>oid\<close> the identity of the new object.\<close>

definition Client_init :: "Session \<Rightarrow> string dict \<Rightarrow> nat \<Rightarrow> string \<Rightarrow> string \<Rightarrow> string \<Rightarrow> Client" where
  "Client_init fresh HEADERS oid lang cid csecret =
     (let h = dict_merge (headers fresh) HEADERS
      in \<lparr> language = lang, client_id = cid, client_secret = csecret,
           account = None, access_token = PNone, refresh_token = PNone,
           session = fresh\<lparr>headers :=
             (if lang \<noteq> [] then AList.update ''Accept-Language'' lang h else h)\<rparr>,
           obj_id = oid \<rparr>)"

text \<open>\<open>self.session.request(...)\<close>: the transport answers, and the call is on record.\<close>

definition logged :: "Client \<Rightarrow> Request \<Rightarrow> Client" where
  "logged c req = c\<lparr>session := (session c)\<lparr>calls := calls (session c) @ [req]\<rparr>\<rparr>"

definition session_request :: "Env \<Rightarrow> Request \<Rightarrow> Client \<Rightarrow> outcome \<times> Client" where
  "session_request env req c = (send env (session c) req, logged c req)"

section \<open>The request/response pipeline\<close>

definition request_json :: "Env \<Rightarrow> Request \<Rightarrow> Client \<Rightarrow> (error + pyval) \<times> Client" where
  "request_json env req c =
     (case session_request env req c of
        (Raised, c') \<Rightarrow> (Inl RequestException, c')
      | (Returned response, c') \<Rightarrow>
          (if status_code response div 100 = 4
           then (Inl (BadApiResponse
                   [''Status code: '' @ str_int (status_code response), resp_text response]
                   None), c')
           else (case json_loads env (resp_text response) of
                   None \<Rightarrow> (Inl (BadApiResponse [] (Some JSONDecodeError)), c')
                 | Some v \<Rightarrow> (Inr v, c'))))"

section \<open>Authentication\<close>

text \<open>The body of the \<open>try\<close> block of \<open>_make_auth_request\<close>, statement by statement:
  the state reached when an exception leaves the block is the state the caller sees.
  \<open>auth_request\<close> is the grant request it posts.\<close>

definition auth_request :: "Client \<Rightarrow> pyval dict \<Rightarrow> Request" where
  "auth_request c dat =
     \<lparr> http_method = ''post'', url = AUTH_URL, params = None, hdrs = None,
       data = Some (dict_merge
         [(''client_id'', PStr (client_id c)),
          (''client_secret'', PStr (client_secret c)),
          (''get_secure_url'', PInt 1)] dat) \<rparr>"

text \<open>\<open>r['response'][k]\<close>.\<close>

definition reply_field :: "pyval \<Rightarrow> string \<Rightarrow> error + pyval" where
  "reply_field r k = bind (getitem r ''response'') (\<lambda>x. getitem x k)"

definition auth_try :: "Env \<Rightarrow> pyval dict \<Rightarrow> Client \<Rightarrow> (error + unit) \<times> Client" where
  "auth_try env dat c =
     (case session_request env (auth_request c dat) c of
        (Raised, c1) \<Rightarrow> (Inl RequestException, c1)
      | (Returned response, c1) \<Rightarrow>
          (case json_loads env (resp_text response) of
             None \<Rightarrow> (Inl JSONDecodeError, c1)
           | Some r \<Rightarrow>
               (case reply_field r ''user'' of
                  Inl e \<Rightarrow> (Inl e, c1)
                | Inr user \<Rightarrow>
                    (let c2 = c1\<lparr>account := Some (Struct user)\<rparr>
                     in case reply_field r ''access_token'' of
                          Inl e \<Rightarrow> (Inl e, c2)
                        | Inr tok \<Rightarrow>
                            (let c3 = c2\<lparr>access_token := tok\<rparr>
                             in case reply_field r ''refresh_token'' of
                                  Inl e \<Rightarrow> (Inl e, c3)
                                | Inr rtok \<Rightarrow>
                                    (let c4 = c3\<lparr>refresh_token := rtok\<rparr>
                                     in (Inr (),
                                         c4\<lparr>session := (session c4)\<lparr>headers :=
                                           AList.update ''Authorization''
                                             (''Bearer '' @ py_str (py_repr env) (access_token c4))
                                             (headers (session c4))\<rparr>\<rparr>)))))))"

text \<open>\<open>except (RequestException, JSONDecodeError, KeyError)\<close>.\<close>

fun auth_caught :: "error \<Rightarrow> bool" where
  "auth_caught RequestException = True"
| "auth_caught JSONDecodeError = True"
| "auth_caught (KeyError k) = True"
| "auth_caught e = False"

definition make_auth_request :: "Env \<Rightarrow> pyval dict \<Rightarrow> Client \<Rightarrow> (error + unit) \<times> Client" where
  "make_auth_request env dat c =
     (case auth_try env dat c of
        (Inl e, c') \<Rightarrow> (if auth_caught e then (Inl (LoginError e), c') else (Inl e, c'))
      | (Inr u, c') \<Rightarrow> (Inr u, c'))"

definition login :: "Env \<Rightarrow> string \<Rightarrow> string \<Rightarrow> Client \<Rightarrow> (error + unit) \<times> Client" where
  "login env username password c =
     make_auth_request env
       [(''grant_type'', PStr ''password''),
        (''username'', PStr username),
        (''password'', PStr password)] c"

definition authenticate :: "Env \<Rightarrow> string \<Rightarrow> Client \<Rightarrow> (error + unit) \<times> Client" where
  "authenticate env rtoken c =
     make_auth_request env
       [(''grant_type'', PStr ''refresh_token''),
        (''refresh_token'', PStr rtoken)] c"

text \<open>The two public entry points of the exchange, as one call: a password grant is
  \<open>login\<close>, a refresh-token grant is \<open>authenticate\<close>.\<close>

datatype grant = Password string string | RefreshToken string

fun grant_data :: "grant \<Rightarrow> pyval dict" where
  "grant_data (Password username password) =
     [(''grant_type'', PStr ''password''),
      (''username'', PStr username),
      (''password'', PStr password)]"
| "grant_data (RefreshToken rtoken) =
     [(''grant_type'', PStr ''refresh_token''),
      (''refresh_token'', PStr rtoken)]"

fun auth_call :: "Env \<Rightarrow> grant \<Rightarrow> Client \<Rightarrow> (error + unit) \<times> Client" where
  "auth_call env (Password username password) c = login env username password c"
| "auth_call env (RefreshToken rtoken) c = authenticate env rtoken c"

section \<open>Models and utilities\<close>

text \<open>Modelled from the spec: \<open>Illustration\<close> and \<open>Comment\<close> of \<open>pixivapi.models\<close> are
  outside the source. The spec describes them as plain data containers wrapping the raw
  JSON fields, holding a back-reference to the client. A model is built from keyword
  arguments: the response's fields and, when the caller passes it, \<open>client\<close> (the
  identity of the client object; absent, the back-reference is unset).\<close>

datatype model =
    Illustration "pyval dict" "nat option"
  | Comment "pyval dict" "nat option"

fun model_client :: "model \<Rightarrow> nat option" where
  "model_client (Illustration d cl) = cl"
| "model_client (Comment d cl) = cl"

text \<open>What an endpoint method returns.\<close>

datatype obj =
    Val pyval
  | Model model
  | StructObj struct
  | EnumObj enum
  | ListObj "obj list"
  | DictObj "(string \<times> obj) list"

text \<open>\<open>**v\<close> needs a mapping; a keyword given twice is a TypeError.\<close>

definition kwargs :: "pyval \<Rightarrow> nat option \<Rightarrow> error + pyval dict" where
  "kwargs v cl =
     (case v of
        PDict d \<Rightarrow>
          (if cl \<noteq> None \<and> map_of d ''client'' \<noteq> None then Inl TypeError else Inr d)
      | _ \<Rightarrow> Inl TypeError)"

definition new_Illustration :: "pyval \<Rightarrow> nat option \<Rightarrow> error + obj" where
  "new_Illustration v cl = bind (kwargs v cl) (\<lambda>d. Inr (Model (Illustration d cl)))"

definition new_Comment :: "pyval \<Rightarrow> nat option \<Rightarrow> error + obj" where
  "new_Comment v cl = bind (kwargs v cl) (\<lambda>d. Inr (Model (Comment d cl)))"

text \<open>Iteration, as a comprehension does it.\<close>

definition py_iter :: "pyval \<Rightarrow> error + pyval list" where
  "py_iter v =
     (case v of
        PList xs \<Rightarrow> Inr xs
      | PTuple xs \<Rightarrow> Inr xs
      | PDict d \<Rightarrow> Inr (map (\<lambda>kv. PStr (fst kv)) d)
      | PStr s \<Rightarrow> Inr (map (\<lambda>ch. PStr [ch]) s)
      | _ \<Rightarrow> Inl TypeError)"

primrec map_res :: "('a \<Rightarrow> error + 'b) \<Rightarrow> 'a list \<Rightarrow> error + 'b list" where
  "map_res f [] = Inr []"
| "map_res f (x # xs) =
     (case f x of
        Inl e \<Rightarrow> Inl e
      | Inr y \<Rightarrow> (case map_res f xs of Inl e \<Rightarrow> Inl e | Inr ys \<Rightarrow> Inr (y # ys)))"

definition comprehension :: "(pyval \<Rightarrow> error + obj) \<Rightarrow> pyval \<Rightarrow> error + obj" where
  "comprehension f v =
     bind (py_iter v) (\<lambda>xs. bind (map_res f xs) (\<lambda>ys. Inr (ListObj ys)))"

subsection \<open>Pagination cursor extraction\<close>

text \<open>Modelled from the spec: \<open>parse_qs\<close> of \<open>pixivapi.common\<close> is outside the source.
  The spec: it parses the URL's query string and returns the value of the named
  parameter, or \<open>None\<close> if the URL is absent or the parameter is missing; numeric-looking
  values are returned as numbers.\<close>

fun split_on :: "char \<Rightarrow> string \<Rightarrow> string list" where
  "split_on sep [] = [[]]"
| "split_on sep (x # xs) =
     (if x = sep then [] # split_on sep xs
      else (case split_on sep xs of [] \<Rightarrow> [[x]] | w # ws \<Rightarrow> (x # w) # ws))"

definition query_string :: "string \<Rightarrow> string" where
  "query_string u =
     drop 1 (dropWhile (\<lambda>ch. ch \<noteq> CHR ''?'') (takeWhile (\<lambda>ch. ch \<noteq> CHR ''#'') u))"

definition query_pairs :: "string \<Rightarrow> (string \<times> string) list" where
  "query_pairs u =
     map (\<lambda>p. (takeWhile (\<lambda>ch. ch \<noteq> CHR ''='') p,
               drop 1 (dropWhile (\<lambda>ch. ch \<noteq> CHR ''='') p)))
       (filter (\<lambda>p. p \<noteq> []) (split_on CHR ''&'' (query_string u)))"

definition is_digit :: "char \<Rightarrow> bool" where
  "is_digit ch = List.member ''0123456789'' ch"

definition numeric :: "string \<Rightarrow> bool" where
  "numeric s = (s \<noteq> [] \<and> list_all is_digit s)"

definition int_of_digits :: "string \<Rightarrow> int" where
  "int_of_digits s = foldl (\<lambda>acc ch. 10 * acc + (of_char ch - 48)) 0 s"

definition parse_qs :: "string option \<Rightarrow> string \<Rightarrow> pyval" where
  "parse_qs next_url param =
     (case next_url of
        None \<Rightarrow> PNone
      | Some u \<Rightarrow>
          (case map_of (query_pairs u) param of
             None \<Rightarrow> PNone
           | Some v \<Rightarrow> (if numeric v then PInt (int_of_digits v) else PStr v)))"

text \<open>The \<open>next_url\<close> of a response is \<open>None\<close> or a string.\<close>

definition as_url :: "pyval \<Rightarrow> error + string option" where
  "as_url v = (case v of PNone \<Rightarrow> Inr None | PStr u \<Rightarrow> Inr (Some u) | _ \<Rightarrow> Inl TypeError)"

definition next_of :: "pyval \<Rightarrow> string \<Rightarrow> error + obj" where
  "next_of response param =
     bind (getitem response ''next_url'')
       (\<lambda>nu. bind (as_url nu) (\<lambda>u. Inr (Val (parse_qs u param))))"

subsection \<open>Query encoding by the transport\<close>

text \<open>
  The client hands its \<open>params\<close> and \<open>data\<close> dictionaries to \<open>requests\<close>, which builds
  the pairs it sends: a value that is \<open>None\<close> contributes nothing, a string or scalar
  contributes one pair, and an iterable contributes one pair for each item that is not
  \<open>None\<close>. \<open>encode_params\<close> is that documented behaviour of the library.
\<close>

fun param_values :: "pyval \<Rightarrow> pyval list" where
  "param_values (PList xs) = xs"
| "param_values (PTuple xs) = xs"
| "param_values (PDict d) = map (\<lambda>kv. PStr (fst kv)) d"
| "param_values v = [v]"

definition encode_params :: "pyval dict \<Rightarrow> (string \<times> pyval) list" where
  "encode_params ps =
     concat (map (\<lambda>kv. map (Pair (fst kv)) (filter (\<lambda>v. v \<noteq> PNone) (param_values (snd kv)))) ps)"

definition outgoing_query :: "Request \<Rightarrow> (string \<times> pyval) list" where
  "outgoing_query req = (case params req of None \<Rightarrow> [] | Some ps \<Rightarrow> encode_params ps)"

definition outgoing_form :: "Request \<Rightarrow> (string \<times> pyval) list" where
  "outgoing_form req = (case data req of None \<Rightarrow> [] | Some ps \<Rightarrow> encode_params ps)"

subsection \<open>The authentication guard\<close>

text \<open>Modelled from the spec: \<open>require_auth\<close> of \<open>pixivapi.common\<close> is outside the source.
  The spec: a gated method requires a prior successful authentication and otherwise fails
  fast with the "requires login" error before any network call; an explicit guard check
  at the top of the gated operation. The token state (account, access token, refresh
  token) is empty at construction and populated by a successful login or refresh; the
  guard tests that it is populated.\<close>

definition authenticated :: "Client \<Rightarrow> bool" where
  "authenticated c =
     (account c \<noteq> None \<and> access_token c \<noteq> PNone \<and> refresh_token c \<noteq> PNone)"

definition require_auth ::
  "(Client \<Rightarrow> (error + 'a) \<times> Client) \<Rightarrow> Client \<Rightarrow> (error + 'a) \<times> Client" where
  "require_auth f c = (if authenticated c then f c else (Inl PreconditionFailure, c))"

section \<open>Endpoint methods\<close>

text \<open>Every endpoint method calls the pipeline once and builds its result from the
  decoded response. For each method, \<open>m_request\<close> is the call it makes and \<open>m_result\<close>
  what it returns from the response; \<open>self\<close> is the identity of the client object.\<close>

definition endpoint ::
  "Env \<Rightarrow> Request \<Rightarrow> (pyval \<Rightarrow> error + obj) \<Rightarrow> Client \<Rightarrow> (error + obj) \<times> Client" where
  "endpoint env req post c =
     (case request_json env req c of
        (Inl e, c') \<Rightarrow> (Inl e, c')
      | (Inr response, c') \<Rightarrow> (post response, c'))"

definition get_request :: "string \<Rightarrow> pyval dict \<Rightarrow> Request" where
  "get_request path ps =
     \<lparr> http_method = ''get'', url = BASE_URL @ path, params = Some ps, hdrs = None,
       data = None \<rparr>"

definition post_request :: "string \<Rightarrow> pyval dict \<Rightarrow> Request" where
  "post_request path d =
     \<lparr> http_method = ''post'', url = BASE_URL @ path, params = None, hdrs = None,
       data = Some d \<rparr>"

definition opt :: "('a \<Rightarrow> pyval) \<Rightarrow> 'a option \<Rightarrow> pyval" where
  "opt f x = (case x of None \<Rightarrow> PNone | Some y \<Rightarrow> f y)"

definition illustrations_of :: "nat \<Rightarrow> pyval \<Rightarrow> string \<Rightarrow> error + obj" where
  "illustrations_of self response key =
     bind (getitem response key)
       (comprehension (\<lambda>illust. new_Illustration illust (Some self)))"

subsection \<open>search_illustrations\<close>

definition search_illustrations_request ::
  "string \<Rightarrow> enum \<Rightarrow> enum \<Rightarrow> enum option \<Rightarrow> int option \<Rightarrow> Request" where
  "search_illustrations_request word search_target sort' duration offset =
     get_request ''/v1/search/illust''
       [(''word'', PStr word),
        (''search_target'', enum_value search_target),
        (''sort'', enum_value sort'),
        (''duration'', opt enum_value duration),
        (''offset'', opt PInt offset),
        (''filter'', PStr FILTER)]"

definition search_illustrations_result :: "nat \<Rightarrow> pyval \<Rightarrow> error + obj" where
  "search_illustrations_result self response =
     bind (illustrations_of self response ''illusts'') (\<lambda>illustrations.
     bind (next_of response ''offset'') (\<lambda>nxt.
     bind (getitem response ''search_span_limit'') (\<lambda>lim.
       Inr (DictObj [(''illustrations'', illustrations), (''next'', nxt),
                     (''search_span_limit'', Val lim)]))))"

definition search_illustrations ::
  "Env \<Rightarrow> string \<Rightarrow> enum \<Rightarrow> enum \<Rightarrow> enum option \<Rightarrow> int option \<Rightarrow> Client
     \<Rightarrow> (error + obj) \<times> Client" where
  "search_illustrations env word search_target sort' duration offset =
     require_auth (\<lambda>c. endpoint env
       (search_illustrations_request word search_target sort' duration offset)
       (search_illustrations_result (obj_id c)) c)"

subsection \<open>fetch_illustration\<close>

definition fetch_illustration_request :: "int \<Rightarrow> Request" where
  "fetch_illustration_request illustration_id =
     get_request ''/v1/illust/detail'' [(''illust_id'', PInt illustration_id)]"

definition fetch_illustration_result :: "nat \<Rightarrow> pyval \<Rightarrow> error + obj" where
  "fetch_illustration_result self response =
     bind (getitem response ''illust'') (\<lambda>illust. new_Illustration illust (Some self))"

definition fetch_illustration :: "Env \<Rightarrow> int \<Rightarrow> Client \<Rightarrow> (error + obj) \<times> Client" where
  "fetch_illustration env illustration_id =
     require_auth (\<lambda>c. endpoint env (fetch_illustration_request illustration_id)
       (fetch_illustration_result (obj_id c)) c)"

subsection \<open>fetch_illustration_comments\<close>

definition fetch_illustration_comments_request :: "Env \<Rightarrow> int \<Rightarrow> int option \<Rightarrow> bool \<Rightarrow> Request" where
  "fetch_illustration_comments_request env illustration_id offset include_total_comments =
     get_request ''/v1/illust/comments''
       [(''illust_id'', PInt illustration_id),
        (''offset'', opt PInt offset),
        (''include_total_comments'', PStr (format_bool env include_total_comments))]"

definition fetch_illustration_comments_result :: "nat \<Rightarrow> pyval \<Rightarrow> error + obj" where
  "fetch_illustration_comments_result self response =
     bind (bind (getitem response ''comments'')
             (comprehension (\<lambda>comment. new_Comment comment (Some self)))) (\<lambda>comments.
     bind (next_of response ''offset'') (\<lambda>nxt.
     bind (getitem response ''total_comments'') (\<lambda>total.
       Inr (DictObj [(''comments'', comments), (''next'', nxt),
                     (''total_comments'', Val total)]))))"

definition fetch_illustration_comments ::
  "Env \<Rightarrow> int \<Rightarrow> int option \<Rightarrow> bool \<Rightarrow> Client \<Rightarrow> (error + obj) \<times> Client" where
  "fetch_illustration_comments env illustration_id offset include_total_comments =
     require_auth (\<lambda>c. endpoint env
       (fetch_illustration_comments_request env illustration_id offset include_total_comments)
       (fetch_illustration_comments_result (obj_id c)) c)"

subsection \<open>fetch_illustration_related\<close>

definition illustrations_page :: "nat \<Rightarrow> pyval \<Rightarrow> error + obj" where
  "illustrations_page self response =
     bind (illustrations_of self response ''illusts'') (\<lambda>illustrations.
     bind (next_of response ''offset'') (\<lambda>nxt.
       Inr (DictObj [(''illustrations'', illustrations), (''next'', nxt)])))"

definition fetch_illustration_related_request :: "int \<Rightarrow> int option \<Rightarrow> Request" where
  "fetch_illustration_related_request illustration_id offset =
     get_request ''/v2/illust/related''
       [(''illust_id'', PInt illustration_id), (''offset'', opt PInt offset)]"

definition fetch_illustration_related_result :: "nat \<Rightarrow> pyval \<Rightarrow> error + obj" where
  "fetch_illustration_related_result self response = illustrations_page self response"

definition fetch_illustration_related ::
  "Env \<Rightarrow> int \<Rightarrow> int option \<Rightarrow> Client \<Rightarrow> (error + obj) \<times> Client" where
  "fetch_illustration_related env illustration_id offset =
     require_auth (\<lambda>c. endpoint env (fetch_illustration_related_request illustration_id offset)
       (fetch_illustration_related_result (obj_id c)) c)"

subsection \<open>fetch_illustrations_following\<close>

definition fetch_illustrations_following_request :: "enum \<Rightarrow> int option \<Rightarrow> Request" where
  "fetch_illustrations_following_request visibility offset =
     get_request ''/v2/illust/follow'' [(''restrict'', enum_value visibility)]"

definition fetch_illustrations_following_result :: "nat \<Rightarrow> pyval \<Rightarrow> error + obj" where
  "fetch_illustrations_following_result self response = illustrations_page self response"

definition fetch_illustrations_following ::
  "Env \<Rightarrow> enum \<Rightarrow> int option \<Rightarrow> Client \<Rightarrow> (error + obj) \<times> Client" where
  "fetch_illustrations_following env visibility offset =
     require_auth (\<lambda>c. endpoint env (fetch_illustrations_following_request visibility offset)
       (fetch_illustrations_following_result (obj_id c)) c)"

subsection \<open>fetch_illustrations_recommended\<close>

primrec join_commas :: "string list \<Rightarrow> string" where
  "join_commas [] = []"
| "join_commas (x # xs) = (if xs = [] then x else x @ '','' @ join_commas xs)"

text \<open>\<open>if bookmark_illust_ids: bookmark_illust_ids = ','.join(...)\<close>: an empty list is
  falsy and stays a list.\<close>

definition joined_ids :: "int list option \<Rightarrow> pyval" where
  "joined_ids ids =
     (case ids of
        None \<Rightarrow> PNone
      | Some xs \<Rightarrow> (if xs \<noteq> [] then PStr (join_commas (map str_int xs)) else PList []))"

definition fetch_illustrations_recommended_request ::
  "Env \<Rightarrow> enum \<Rightarrow> bool \<Rightarrow> int option \<Rightarrow> int option \<Rightarrow> int option \<Rightarrow> int list option \<Rightarrow> bool
     \<Rightarrow> Request" where
  "fetch_illustrations_recommended_request env content_type include_ranking_illustrations
       max_bookmark_id_for_recommend min_bookmark_id_for_recent_illustrations offset
       bookmark_illust_ids include_ranking_label =
     get_request ''/v1/illust/recommended''
       [(''content_type'', enum_value content_type),
        (''include_ranking_label'', PStr (format_bool env include_ranking_label)),
        (''max_bookmark_id_for_recommend'', opt PInt max_bookmark_id_for_recommend),
        (''min_bookmark_id_for_recent_illust'',
           PTuple [opt PInt min_bookmark_id_for_recent_illustrations]),
        (''offset'', opt PInt offset),
        (''include_ranking_illusts'', PStr (format_bool env include_ranking_illustrations)),
        (''bookmark_illust_ids'', joined_ids bookmark_illust_ids)]"

definition fetch_illustrations_recommended_result :: "nat \<Rightarrow> pyval \<Rightarrow> error + obj" where
  "fetch_illustrations_recommended_result self response =
     bind (getitem response ''contest_exists'') (\<lambda>contest.
     bind (illustrations_of self response ''illusts'') (\<lambda>illustrations.
     bind (next_of response ''min_bookmark_id_for_recent_illust'') (\<lambda>n1.
     bind (next_of response ''max_bookmark_id_for_recommend'') (\<lambda>n2.
     bind (next_of response ''offset'') (\<lambda>n3.
     bind (illustrations_of self response ''ranking_illusts'') (\<lambda>ranking.
       Inr (DictObj
         [(''contest_exists'', Val contest),
          (''illustrations'', illustrations),
          (''next'', DictObj
             [(''min_bookmark_id_for_recent_illustrations'', n1),
              (''max_bookmark_id_for_recommend'', n2),
              (''offset'', n3)]),
          (''ranking_illustrations'', ranking)])))))))"

definition fetch_illustrations_recommended ::
  "Env \<Rightarrow> enum \<Rightarrow> bool \<Rightarrow> int option \<Rightarrow> int option \<Rightarrow> int option \<Rightarrow> int list option \<Rightarrow> bool
     \<Rightarrow> Client \<Rightarrow> (error + obj) \<times> Client" where
  "fetch_illustrations_recommended env content_type include_ranking_illustrations
       max_bookmark_id_for_recommend min_bookmark_id_for_recent_illustrations offset
       bookmark_illust_ids include_ranking_label =
     require_auth (\<lambda>c. endpoint env
       (fetch_illustrations_recommended_request env content_type include_ranking_illustrations
          max_bookmark_id_for_recommend min_bookmark_id_for_recent_illustrations offset
          bookmark_illust_ids include_ranking_label)
       (fetch_illustrations_recommended_result (obj_id c)) c)"

subsection \<open>fetch_illustrations_ranking\<close>

definition fetch_illustrations_ranking_request :: "enum \<Rightarrow> string option \<Rightarrow> int option \<Rightarrow> Request" where
  "fetch_illustrations_ranking_request mode date offset =
     get_request ''/v1/illust/ranking''
       [(''mode'', enum_value mode),
        (''date'', opt PStr date),
        (''offset'', opt PInt offset),
        (''filter'', PStr FILTER)]"

definition fetch_illustrations_ranking_result :: "nat \<Rightarrow> pyval \<Rightarrow> error + obj" where
  "fetch_illustrations_ranking_result self response = illustrations_page self response"

definition fetch_illustrations_ranking ::
  "Env \<Rightarrow> enum \<Rightarrow> string option \<Rightarrow> int option \<Rightarrow> Client \<Rightarrow> (error + obj) \<times> Client" where
  "fetch_illustrations_ranking env mode date offset =
     require_auth (\<lambda>c. endpoint env (fetch_illustrations_ranking_request mode date offset)
       (fetch_illustrations_ranking_result (obj_id c)) c)"

subsection \<open>fetch_trending_tags\<close>

definition fetch_trending_tags_request :: Request where
  "fetch_trending_tags_request =
     get_request ''/v1/trending-tags/illust'' [(''filter'', PStr FILTER)]"

definition trending_entry :: "pyval \<Rightarrow> error + obj" where
  "trending_entry trending =
     bind (bind (getitem trending ''illust'') (\<lambda>illust. new_Illustration illust None))
       (\<lambda>illustration.
     bind (getitem trending ''tag'') (\<lambda>tag.
     bind (getitem trending ''translated_name'') (\<lambda>translated.
       Inr (DictObj [(''illustration'', illustration), (''tag'', Val tag),
                     (''translated_name'', Val translated)]))))"

definition fetch_trending_tags_result :: "nat \<Rightarrow> pyval \<Rightarrow> error + obj" where
  "fetch_trending_tags_result self response =
     bind (getitem response ''trend_tags'') (comprehension trending_entry)"

definition fetch_trending_tags :: "Env \<Rightarrow> Client \<Rightarrow> (error + obj) \<times> Client" where
  "fetch_trending_tags env =
     require_auth (\<lambda>c. endpoint env fetch_trending_tags_request
       (fetch_trending_tags_result (obj_id c)) c)"

subsection \<open>fetch_bookmark, add_bookmark, delete_bookmark\<close>

definition fetch_bookmark_request :: "int \<Rightarrow> Request" where
  "fetch_bookmark_request illustration_id =
     get_request ''/v2/illust/bookmark/detail'' [(''illust_id'', PInt illustration_id)]"

definition fetch_bookmark_result :: "Env \<Rightarrow> pyval \<Rightarrow> error + obj" where
  "fetch_bookmark_result env json =
     bind (getitem json ''bookmark_detail'') (\<lambda>response.
     bind (getitem response ''is_bookmarked'') (\<lambda>is_bookmarked.
     bind (getitem response ''restrict'') (\<lambda>restrict.
     bind (case Visibility env restrict of None \<Rightarrow> Inl ValueError | Some m \<Rightarrow> Inr m)
       (\<lambda>visibility.
     bind (getitem response ''tags'') (\<lambda>tags.
       Inr (DictObj [(''is_bookmarked'', Val is_bookmarked),
                     (''visibility'', EnumObj visibility),
                     (''tags'', Val tags)]))))))"

definition fetch_bookmark :: "Env \<Rightarrow> int \<Rightarrow> Client \<Rightarrow> (error + obj) \<times> Client" where
  "fetch_bookmark env illustration_id =
     require_auth (\<lambda>c. endpoint env (fetch_bookmark_request illustration_id)
       (fetch_bookmark_result env) c)"

definition add_bookmark_request :: "int \<Rightarrow> enum \<Rightarrow> Request" where
  "add_bookmark_request illustration_id visibility =
     post_request ''/v2/illust/bookmark/add''
       [(''illust_id'', PInt illustration_id), (''restrict'', enum_value visibility)]"

definition add_bookmark :: "Env \<Rightarrow> int \<Rightarrow> enum \<Rightarrow> Client \<Rightarrow> (error + obj) \<times> Client" where
  "add_bookmark env illustration_id visibility =
     require_auth (\<lambda>c. endpoint env (add_bookmark_request illustration_id visibility)
       (\<lambda>response. Inr (Val PNone)) c)"

definition delete_bookmark_request :: "int \<Rightarrow> Request" where
  "delete_bookmark_request illustration_id =
     post_request ''/v1/illust/bookmark/delete'' [(''illust_id'', PInt illustration_id)]"

definition delete_bookmark :: "Env \<Rightarrow> int \<Rightarrow> Client \<Rightarrow> (error + obj) \<times> Client" where
  "delete_bookmark env illustration_id =
     require_auth (\<lambda>c. endpoint env (delete_bookmark_request illustration_id)
       (\<lambda>response. Inr (Val PNone)) c)"

subsection \<open>The methods that return a Struct\<close>

definition struct_result :: "pyval \<Rightarrow> error + obj" where
  "struct_result response = Inr (StructObj (Struct response))"

definition fetch_user_request :: "int \<Rightarrow> Request" where
  "fetch_user_request user_id =
     get_request ''/v1/user/detail'' [(''user_id'', PInt user_id), (''filter'', PStr FILTER)]"

definition fetch_user :: "Env \<Rightarrow> int \<Rightarrow> Client \<Rightarrow> (error + obj) \<times> Client" where
  "fetch_user env user_id c = endpoint env (fetch_user_request user_id) struct_result c"

definition fetch_user_illustrations_request :: "int \<Rightarrow> enum option \<Rightarrow> int option \<Rightarrow> Request" where
  "fetch_user_illustrations_request user_id type' offset =
     get_request ''/v1/user/illusts''
       [(''user_id'', PInt user_id),
        (''type'', opt enum_value type'),
        (''offset'', opt PInt offset),
        (''filter'', PStr FILTER)]"

definition fetch_user_illustrations ::
  "Env \<Rightarrow> int \<Rightarrow> enum option \<Rightarrow> int option \<Rightarrow> Client \<Rightarrow> (error + obj) \<times> Client" where
  "fetch_user_illustrations env user_id type' offset c =
     endpoint env (fetch_user_illustrations_request user_id type' offset) struct_result c"

definition fetch_user_bookmarks_request ::
  "int \<Rightarrow> enum \<Rightarrow> int option \<Rightarrow> string option \<Rightarrow> Request" where
  "fetch_user_bookmarks_request user_id visibility max_bookmark_id tag =
     get_request ''/v1/user/bookmarks/illust''
       [(''user_id'', PInt user_id),
        (''restrict'', enum_value visibility),
        (''max_bookmark_id'', opt PInt max_bookmark_id),
        (''tag'', opt PStr tag)]"

definition fetch_user_bookmarks ::
  "Env \<Rightarrow> int \<Rightarrow> enum \<Rightarrow> int option \<Rightarrow> string option \<Rightarrow> Client \<Rightarrow> (error + obj) \<times> Client" where
  "fetch_user_bookmarks env user_id visibility max_bookmark_id tag =
     require_auth (\<lambda>c. endpoint env
       (fetch_user_bookmarks_request user_id visibility max_bookmark_id tag) struct_result c)"

definition fetch_user_bookmark_tags_request :: "enum \<Rightarrow> int option \<Rightarrow> Request" where
  "fetch_user_bookmark_tags_request visibility offset =
     get_request ''/v1/user/bookmark-tags/illust''
       [(''restrict'', enum_value visibility), (''offset'', opt PInt offset)]"

definition fetch_user_bookmark_tags ::
  "Env \<Rightarrow> enum \<Rightarrow> int option \<Rightarrow> Client \<Rightarrow> (error + obj) \<times> Client" where
  "fetch_user_bookmark_tags env visibility offset =
     require_auth (\<lambda>c. endpoint env (fetch_user_bookmark_tags_request visibility offset)
       struct_result c)"

definition fetch_following_request :: "int \<Rightarrow> enum \<Rightarrow> int option \<Rightarrow> Request" where
  "fetch_following_request user_id visibility offset =
     get_request ''/v1/user/following''
       [(''user_id'', PInt user_id),
        (''restrict'', enum_value visibility),
        (''offset'', opt PInt offset)]"

definition fetch_following ::
  "Env \<Rightarrow> int \<Rightarrow> enum \<Rightarrow> int option \<Rightarrow> Client \<Rightarrow> (error + obj) \<times> Client" where
  "fetch_following env user_id visibility offset =
     require_auth (\<lambda>c. endpoint env (fetch_following_request user_id visibility offset)
       struct_result c)"

definition fetch_followers_request :: "int \<Rightarrow> int option \<Rightarrow> Request" where
  "fetch_followers_request user_id offset =
     get_request ''/v1/user/follower''
       [(''user_id'', PInt user_id),
        (''offset'', opt PInt offset),
        (''filter'', PStr FILTER)]"

definition fetch_followers :: "Env \<Rightarrow> int \<Rightarrow> int option \<Rightarrow> Client \<Rightarrow> (error + obj) \<times> Client" where
  "fetch_followers env user_id offset =
     require_auth (\<lambda>c. endpoint env (fetch_followers_request user_id offset) struct_result c)"

definition fetch_my_pixiv_request :: "int \<Rightarrow> int option \<Rightarrow> Request" where
  "fetch_my_pixiv_request user_id offset =
     get_request ''/v2/user/list''
       [(''user_id'', PInt user_id),
        (''offset'', opt PInt offset),
        (''filter'', PStr FILTER)]"

definition fetch_my_pixiv :: "Env \<Rightarrow> int \<Rightarrow> int option \<Rightarrow> Client \<Rightarrow> (error + obj) \<times> Client" where
  "fetch_my_pixiv env user_id offset =
     require_auth (\<lambda>c. endpoint env (fetch_my_pixiv_request user_id offset) struct_result c)"

section \<open>Notions the statements use\<close>

text \<open>The names of the parameters a request puts on the wire.\<close>

definition sent_keys :: "Request \<Rightarrow> string set" where
  "sent_keys req = fst ` set (outgoing_query req)"

text \<open>A query string written out from its parameters: \<open>k1=v1&k2=v2&...\<close>.\<close>

primrec render_query :: "(string \<times> string) list \<Rightarrow> string" where
  "render_query [] = []"
| "render_query (kv # rest) =
     (if rest = [] then fst kv @ CHR ''='' # snd kv
      else fst kv @ CHR ''='' # snd kv @ CHR ''&'' # render_query rest)"

text \<open>
  A client that has never completed a successful login or refresh: it is fresh from the
  constructor, or it comes from such a client by an exchange that failed, or by a request
  of a method that is not gated (which only reaches the transport).
\<close>

inductive never_logged_in :: "Client \<Rightarrow> bool" where
  fresh: "never_logged_in (Client_init fresh HEADERS oid lang cid csecret)"
| failed: "never_logged_in c \<Longrightarrow> auth_call env g c = (Inl e, c') \<Longrightarrow> never_logged_in c'"
| called: "never_logged_in c \<Longrightarrow> never_logged_in (logged c req)"

section \<open>Sample inputs\<close>

text \<open>A fresh client, some response bodies with what a JSON decoder makes of them, and
  an environment whose transport gives one fixed answer.\<close>

definition sample_session :: Session where
  "sample_session = \<lparr> headers = [(''Accept'', ''*/*'')], calls = [] \<rparr>"

definition sample_client :: Client where
  "sample_client =
     Client_init sample_session [(''App-OS'', ''ios'')] 1 ''English'' ''some-id'' ''some-secret''"

definition token_body :: string where
  \<open>token_body =
     ''{"response": {"user": {"id": 7}, "access_token": "tokA", "refresh_token": "tokR"}}''\<close>

definition token_json :: pyval where
  "token_json =
     PDict [(''response'', PDict [(''user'', PDict [(''id'', PInt 7)]),
                                  (''access_token'', PStr ''tokA''),
                                  (''refresh_token'', PStr ''tokR'')])]"

definition partial_body :: string where
  \<open>partial_body = ''{"response": {"user": {"id": 7}, "access_token": "tokA"}}''\<close>

definition partial_json :: pyval where
  "partial_json =
     PDict [(''response'', PDict [(''user'', PDict [(''id'', PInt 7)]),
                                  (''access_token'', PStr ''tokA'')])]"

definition refused_body :: string where
  \<open>refused_body = ''{"has_error": true}''\<close>

definition refused_json :: pyval where
  "refused_json = PDict [(''has_error'', PBool True)]"

definition trending_body :: string where
  \<open>trending_body =
     ''{"trend_tags": [{"illust": {"id": 5}, "tag": "sky", "translated_name": "Sky"}]}''\<close>

definition trending_json :: pyval where
  "trending_json =
     PDict [(''trend_tags'',
             PList [PDict [(''illust'', PDict [(''id'', PInt 5)]),
                           (''tag'', PStr ''sky''),
                           (''translated_name'', PStr ''Sky'')]])]"

definition page_body :: string where
  \<open>page_body = ''{"illusts": [{"id": 5}], "next_url": null}''\<close>

definition page_json :: pyval where
  "page_json = PDict [(''illusts'', PList [PDict [(''id'', PInt 5)]]), (''next_url'', PNone)]"

definition null_response_body :: string where
  \<open>null_response_body = ''{"response": null}''\<close>

definition null_response_json :: pyval where
  "null_response_json = PDict [(''response'', PNone)]"

definition sample_loads :: "string \<Rightarrow> pyval option" where
  "sample_loads t =
     (if t = token_body then Some token_json
      else if t = partial_body then Some partial_json
      else if t = refused_body then Some refused_json
      else if t = trending_body then Some trending_json
      else if t = page_body then Some page_json
      else if t = null_response_body then Some null_response_json
      else None)"

definition sample_Visibility :: "pyval \<Rightarrow> enum option" where
  "sample_Visibility v =
     (if v = PStr ''public'' then Some (Enum ''PUBLIC'' v)
      else if v = PStr ''private'' then Some (Enum ''PRIVATE'' v)
      else None)"

definition sample_env :: "outcome \<Rightarrow> Env" where
  "sample_env answer =
     \<lparr> send = (\<lambda>s req. answer),
       json_loads = sample_loads,
       py_repr = (\<lambda>v. ''...''),
       format_bool = (\<lambda>b. if b then ''true'' else ''false''),
       Visibility = sample_Visibility \<rparr>"

definition reply :: "int \<Rightarrow> string \<Rightarrow> outcome" where
  "reply code body = Returned \<lparr> status_code = code, resp_text = body \<rparr>"

definition logged_in_client :: Client where
  "logged_in_client = snd (login (sample_env (reply 200 token_body)) ''user'' ''pw'' sample_client)"

section \<open>Facts about the samples\<close>

lemma str_int_404: "str_int 404 = ''404''"
  by code_simp

lemma sample_loads_token: "sample_loads token_body = Some token_json"
  by (simp add: sample_loads_def)

lemma sample_loads_partial: "sample_loads partial_body = Some partial_json"
  by (simp add: sample_loads_def token_body_def partial_body_def)

lemma sample_loads_refused: "sample_loads refused_body = Some refused_json"
  by (simp add: sample_loads_def token_body_def partial_body_def refused_body_def)

lemma sample_loads_trending: "sample_loads trending_body = Some trending_json"
  by (simp add: sample_loads_def token_body_def partial_body_def refused_body_def
        trending_body_def)

lemma sample_loads_page: "sample_loads page_body = Some page_json"
  by (simp add: sample_loads_def token_body_def partial_body_def refused_body_def
        trending_body_def page_body_def)

lemma sample_loads_null_response: "sample_loads null_response_body = Some null_response_json"
  by (simp add: sample_loads_def token_body_def partial_body_def refused_body_def
        trending_body_def page_body_def null_response_body_def)

lemma sample_loads_not_json: "sample_loads ''not json'' = None"
  by (simp add: sample_loads_def token_body_def partial_body_def refused_body_def
        trending_body_def page_body_def null_response_body_def)

lemma sample_loads_empty: "sample_loads [] = None"
  by (simp add: sample_loads_def token_body_def partial_body_def refused_body_def
        trending_body_def page_body_def null_response_body_def)

lemma sample_env_simps [simp]:
  "send (sample_env answer) s req = answer"
  "json_loads (sample_env answer) = sample_loads"
  "py_repr (sample_env answer) v = ''...''"
  "format_bool (sample_env answer) b = (if b then ''true'' else ''false'')"
  by (simp_all add: sample_env_def)

lemma sample_client_fields [simp]:
  "account sample_client = None"
  "access_token sample_client = PNone"
  "refresh_token sample_client = PNone"
  "obj_id sample_client = 1"
  "calls (session sample_client) = []"
  "client_id sample_client = ''some-id''"
  "client_secret sample_client = ''some-secret''"
  by (simp_all add: sample_client_def Client_init_def sample_session_def Let_def)

lemma sample_client_headers:
  "headers (session sample_client) =
     [(''Accept'', ''*/*''), (''App-OS'', ''ios''), (''Accept-Language'', ''English'')]"
  by (simp add: sample_client_def Client_init_def sample_session_def Let_def dict_merge_def)

section \<open>The request/response pipeline\<close>

lemma request_json_returned:
  "send env (session c) req = Returned response \<Longrightarrow>
   request_json env req c =
     (if status_code response div 100 = 4
      then (Inl (BadApiResponse
              [''Status code: '' @ str_int (status_code response), resp_text response] None),
            logged c req)
      else (case json_loads env (resp_text response) of
              None \<Rightarrow> (Inl (BadApiResponse [] (Some JSONDecodeError)), logged c req)
            | Some v \<Rightarrow> (Inr v, logged c req)))"
  by (simp add: request_json_def session_request_def split: option.splits)

lemma request_json_raised:
  "send env (session c) req = Raised \<Longrightarrow>
   request_json env req c = (Inl RequestException, logged c req)"
  by (simp add: request_json_def session_request_def)

lemma request_json_state: "snd (request_json env req c) = logged c req"
  by (cases "send env (session c) req")
     (simp_all add: request_json_raised request_json_returned split: option.splits)

text \<open>
  C2. When the transport returns a response, \<open>_request_json\<close> raises
  \<open>BadApiResponse('Status code: <code>', <body text>)\<close> exactly when
  \<open>status_code // 100 == 4\<close>; for a three-digit status code that is exactly when its
  hundreds digit is 4. A 404 gives the error with \<open>Status code: 404\<close> and the body text.
  Any other status code is not looked at again: what happens depends on the body alone,
  so a 5xx and a 2xx response with the same body are treated alike.
\<close>

theorem request_json_status_error:
  assumes "send env (session c) req = Returned response"
  shows "((fst (request_json env req c) =
            Inl (BadApiResponse [''Status code: '' @ str_int (status_code response),
                                 resp_text response] None))
          = (status_code response div 100 = 4))
       \<and> (100 \<le> status_code response \<and> status_code response \<le> 999 \<longrightarrow>
            ((fst (request_json env req c) =
               Inl (BadApiResponse [''Status code: '' @ str_int (status_code response),
                                    resp_text response] None))
             = (status_code response div 100 mod 10 = 4)))
       \<and> (status_code response = 404 \<longrightarrow>
            fst (request_json env req c) =
              Inl (BadApiResponse [''Status code: 404'', resp_text response] None))
       \<and> (status_code response div 100 \<noteq> 4 \<longrightarrow>
            fst (request_json env req c) =
              (case json_loads env (resp_text response) of
                 None \<Rightarrow> Inl (BadApiResponse [] (Some JSONDecodeError))
               | Some v \<Rightarrow> Inr v))"
proof -
  note r = request_json_returned [OF assms]
  have a: "(fst (request_json env req c) =
            Inl (BadApiResponse [''Status code: '' @ str_int (status_code response),
                                 resp_text response] None))
          = (status_code response div 100 = 4)"
    by (simp add: r split: option.splits)
  have d: "100 \<le> status_code response \<and> status_code response \<le> 999 \<Longrightarrow>
      (status_code response div 100 mod 10 = 4) = (status_code response div 100 = 4)"
    by auto
  have b: "status_code response = 404 \<Longrightarrow>
            fst (request_json env req c) =
              Inl (BadApiResponse [''Status code: 404'', resp_text response] None)"
    by (simp add: r str_int_404)
  have e: "status_code response div 100 \<noteq> 4 \<Longrightarrow>
            fst (request_json env req c) =
              (case json_loads env (resp_text response) of
                 None \<Rightarrow> Inl (BadApiResponse [] (Some JSONDecodeError))
               | Some v \<Rightarrow> Inr v)"
    by (simp add: r split: option.splits)
  show ?thesis using a b d e by simp
qed

theorem request_json_status_error_witness:
  "send (sample_env (reply 404 ''Not Found'')) (session sample_client) fetch_trending_tags_request
     = Returned \<lparr> status_code = 404, resp_text = ''Not Found'' \<rparr>
   \<and> fst (request_json (sample_env (reply 404 ''Not Found'')) fetch_trending_tags_request
            sample_client)
     = Inl (BadApiResponse [''Status code: 404'', ''Not Found''] None)"
  using request_json_status_error
    [of "sample_env (reply 404 ''Not Found'')" sample_client fetch_trending_tags_request
        "\<lparr> status_code = 404, resp_text = ''Not Found'' \<rparr>"]
  by (simp add: reply_def str_int_404)

text \<open>
  C3. When the transport returns a response whose status code is not 4xx,
  \<open>_request_json\<close> raises exactly when the decoder rejects the body, the error is then
  \<open>BadApiResponse\<close> with no argument at all (neither message nor body), caused by the
  JSONDecodeError; otherwise it returns the decoded value as it is. An empty body that the
  decoder rejects is one such case.
\<close>

theorem request_json_decode:
  assumes "send env (session c) req = Returned response"
    and "status_code response div 100 \<noteq> 4"
  shows "((fst (request_json env req c) = Inl (BadApiResponse [] (Some JSONDecodeError)))
          = (json_loads env (resp_text response) = None))
       \<and> ((\<exists>e. fst (request_json env req c) = Inl e)
          = (json_loads env (resp_text response) = None))
       \<and> (\<forall>v. json_loads env (resp_text response) = Some v \<longrightarrow>
                fst (request_json env req c) = Inr v)
       \<and> (resp_text response = [] \<and> json_loads env [] = None \<longrightarrow>
            fst (request_json env req c) = Inl (BadApiResponse [] (Some JSONDecodeError)))"
  using assms by (auto simp: request_json_returned split: option.splits)

theorem request_json_decode_witness:
  "send (sample_env (reply 200 ''not json'')) (session sample_client) fetch_trending_tags_request
     = Returned \<lparr> status_code = 200, resp_text = ''not json'' \<rparr>
   \<and> (200::int) div 100 \<noteq> 4
   \<and> json_loads (sample_env (reply 200 ''not json'')) ''not json'' = None
   \<and> fst (request_json (sample_env (reply 200 ''not json'')) fetch_trending_tags_request
            sample_client)
     = Inl (BadApiResponse [] (Some JSONDecodeError))"
  using request_json_decode
    [of "sample_env (reply 200 ''not json'')" sample_client fetch_trending_tags_request
        "\<lparr> status_code = 200, resp_text = ''not json'' \<rparr>"]
  by (simp add: reply_def sample_loads_not_json)

section \<open>Authentication\<close>

lemma auth_call_eq: "auth_call env g c = make_auth_request env (grant_data g) c"
  by (cases g) (simp_all add: login_def authenticate_def)

subsection \<open>The paths through the try block\<close>

lemma auth_try_Raised:
  "send env (session c) (auth_request c dat) = Raised \<Longrightarrow>
   auth_try env dat c = (Inl RequestException, logged c (auth_request c dat))"
  by (simp add: auth_try_def session_request_def)

lemma auth_try_undecodable:
  "send env (session c) (auth_request c dat) = Returned response \<Longrightarrow>
   json_loads env (resp_text response) = None \<Longrightarrow>
   auth_try env dat c = (Inl JSONDecodeError, logged c (auth_request c dat))"
  by (simp add: auth_try_def session_request_def)

lemma auth_try_no_user:
  "send env (session c) (auth_request c dat) = Returned response \<Longrightarrow>
   json_loads env (resp_text response) = Some r \<Longrightarrow>
   reply_field r ''user'' = Inl e \<Longrightarrow>
   auth_try env dat c = (Inl e, logged c (auth_request c dat))"
  by (simp add: auth_try_def session_request_def)

lemma auth_try_no_access_token:
  "send env (session c) (auth_request c dat) = Returned response \<Longrightarrow>
   json_loads env (resp_text response) = Some r \<Longrightarrow>
   reply_field r ''user'' = Inr usr \<Longrightarrow>
   reply_field r ''access_token'' = Inl e \<Longrightarrow>
   auth_try env dat c =
     (Inl e, (logged c (auth_request c dat))\<lparr>account := Some (Struct usr)\<rparr>)"
  by (simp add: auth_try_def session_request_def Let_def)

lemma auth_try_no_refresh_token:
  "send env (session c) (auth_request c dat) = Returned response \<Longrightarrow>
   json_loads env (resp_text response) = Some r \<Longrightarrow>
   reply_field r ''user'' = Inr usr \<Longrightarrow>
   reply_field r ''access_token'' = Inr tok \<Longrightarrow>
   reply_field r ''refresh_token'' = Inl e \<Longrightarrow>
   auth_try env dat c =
     (Inl e, (logged c (auth_request c dat))
               \<lparr>account := Some (Struct usr), access_token := tok\<rparr>)"
  by (simp add: auth_try_def session_request_def Let_def)

lemma auth_try_complete:
  "send env (session c) (auth_request c dat) = Returned response \<Longrightarrow>
   json_loads env (resp_text response) = Some r \<Longrightarrow>
   reply_field r ''user'' = Inr usr \<Longrightarrow>
   reply_field r ''access_token'' = Inr tok \<Longrightarrow>
   reply_field r ''refresh_token'' = Inr rtok \<Longrightarrow>
   auth_try env dat c =
     (Inr (), (logged c (auth_request c dat))
        \<lparr>account := Some (Struct usr), access_token := tok, refresh_token := rtok,
         session := (session (logged c (auth_request c dat)))\<lparr>headers :=
            AList.update ''Authorization'' (''Bearer '' @ py_str (py_repr env) tok)
              (headers (session c))\<rparr>\<rparr>)"
  by (simp add: auth_try_def session_request_def Let_def logged_def)

lemma getitem_Inr_then_KeyError:
  "getitem v k = Inr y \<Longrightarrow> getitem v k' = Inl e \<Longrightarrow> e = KeyError k'"
  by (cases v) (auto simp: getitem_def split: option.splits)

lemma reply_field_Inr:
  "(reply_field r k = Inr y) =
     (\<exists>resp. getitem r ''response'' = Inr resp \<and> getitem resp k = Inr y)"
  by (cases "getitem r ''response''") (simp_all add: reply_field_def bind_def)

lemma reply_field_Inr_then_KeyError:
  "reply_field r k = Inr y \<Longrightarrow> reply_field r k' = Inl e \<Longrightarrow> e = KeyError k'"
  by (cases "getitem r ''response''")
     (auto simp: reply_field_def bind_def dest: getitem_Inr_then_KeyError)

lemma reply_field_KeyError_any:
  assumes "reply_field r k = Inl (KeyError j)" and "reply_field r k' = Inl e"
  shows "\<exists>j'. e = KeyError j'"
proof (cases "getitem r ''response''")
  case (Inl e0)
  with assms show ?thesis by (auto simp: reply_field_def bind_def)
next
  case (Inr resp)
  with assms have a: "getitem resp k = Inl (KeyError j)" and b: "getitem resp k' = Inl e"
    by (simp_all add: reply_field_def bind_def)
  from a obtain d where "resp = PDict d"
    by (cases resp) (simp_all add: getitem_def)
  with b show ?thesis by (auto simp: getitem_def split: option.splits)
qed

lemma auth_try_failure:
  assumes "auth_try env dat c = (Inl e, c')"
  shows "refresh_token c' = refresh_token c \<and> headers (session c') = headers (session c)
       \<and> (access_token c' = access_token c \<or> e = KeyError ''refresh_token'')
       \<and> (account c' = account c \<or> e = KeyError ''access_token''
            \<or> e = KeyError ''refresh_token'')"
proof (cases "send env (session c) (auth_request c dat)")
  case Raised
  from auth_try_Raised [OF this] assms show ?thesis by (auto simp: logged_def)
next
  case (Returned response)
  show ?thesis
  proof (cases "json_loads env (resp_text response)")
    case None
    from auth_try_undecodable [OF Returned None] assms show ?thesis by (auto simp: logged_def)
  next
    case (Some r)
    show ?thesis
    proof (cases "reply_field r ''user''")
      case (Inl e1)
      from auth_try_no_user [OF Returned Some Inl] assms show ?thesis by (auto simp: logged_def)
    next
      case usr: (Inr usr)
      show ?thesis
      proof (cases "reply_field r ''access_token''")
        case (Inl e2)
        from reply_field_Inr_then_KeyError [OF usr Inl] have "e2 = KeyError ''access_token''" .
        with auth_try_no_access_token [OF Returned Some usr Inl] assms show ?thesis
          by (auto simp: logged_def)
      next
        case tok: (Inr tok)
        show ?thesis
        proof (cases "reply_field r ''refresh_token''")
          case (Inl e3)
          from reply_field_Inr_then_KeyError [OF usr Inl]
          have "e3 = KeyError ''refresh_token''" .
          with auth_try_no_refresh_token [OF Returned Some usr tok Inl] assms show ?thesis
            by (auto simp: logged_def)
        next
          case (Inr rtok)
          from auth_try_complete [OF Returned Some usr tok Inr] assms show ?thesis by simp
        qed
      qed
    qed
  qed
qed

lemma make_auth_request_failure:
  assumes "make_auth_request env dat c = (Inl e, c')"
  shows "refresh_token c' = refresh_token c \<and> headers (session c') = headers (session c)
       \<and> (access_token c' = access_token c \<or> e = LoginError (KeyError ''refresh_token''))
       \<and> (account c' = account c \<or> e = LoginError (KeyError ''access_token'')
            \<or> e = LoginError (KeyError ''refresh_token''))"
proof -
  obtain r c1 where t: "auth_try env dat c = (r, c1)" by (cases "auth_try env dat c")
  show ?thesis
  proof (cases r)
    case (Inl e0)
    with t assms have c1: "c1 = c'" and e: "e = (if auth_caught e0 then LoginError e0 else e0)"
      by (auto simp: make_auth_request_def split: if_splits)
    from auth_try_failure [of env dat c e0 c1] t Inl c1 e show ?thesis
      by auto
  next
    case (Inr u)
    with t assms show ?thesis by (simp add: make_auth_request_def)
  qed
qed

lemma auth_try_success:
  assumes "auth_try env dat c = (Inr u, c')"
  shows "\<exists>response r usr tok rtok.
           send env (session c) (auth_request c dat) = Returned response
         \<and> json_loads env (resp_text response) = Some r
         \<and> reply_field r ''user'' = Inr usr
         \<and> reply_field r ''access_token'' = Inr tok
         \<and> reply_field r ''refresh_token'' = Inr rtok
         \<and> c' = (logged c (auth_request c dat))
              \<lparr>account := Some (Struct usr), access_token := tok, refresh_token := rtok,
               session := (session (logged c (auth_request c dat)))\<lparr>headers :=
                 AList.update ''Authorization'' (''Bearer '' @ py_str (py_repr env) tok)
                   (headers (session c))\<rparr>\<rparr>"
proof (cases "send env (session c) (auth_request c dat)")
  case Raised
  from auth_try_Raised [OF this] assms show ?thesis by simp
next
  case (Returned response)
  show ?thesis
  proof (cases "json_loads env (resp_text response)")
    case None
    from auth_try_undecodable [OF Returned None] assms show ?thesis by simp
  next
    case (Some r)
    show ?thesis
    proof (cases "reply_field r ''user''")
      case (Inl e1)
      from auth_try_no_user [OF Returned Some Inl] assms show ?thesis by simp
    next
      case usr: (Inr usr)
      show ?thesis
      proof (cases "reply_field r ''access_token''")
        case (Inl e2)
        from auth_try_no_access_token [OF Returned Some usr Inl] assms show ?thesis by simp
      next
        case tok: (Inr tok)
        show ?thesis
        proof (cases "reply_field r ''refresh_token''")
          case (Inl e3)
          from auth_try_no_refresh_token [OF Returned Some usr tok Inl] assms show ?thesis
            by simp
        next
          case (Inr rtok)
          from auth_try_complete [OF Returned Some usr tok Inr] assms
          have "c' = (logged c (auth_request c dat))
              \<lparr>account := Some (Struct usr), access_token := tok, refresh_token := rtok,
               session := (session (logged c (auth_request c dat)))\<lparr>headers :=
                 AList.update ''Authorization'' (''Bearer '' @ py_str (py_repr env) tok)
                   (headers (session c))\<rparr>\<rparr>"
            by simp
          with Returned Some usr tok Inr show ?thesis by blast
        qed
      qed
    qed
  qed
qed

lemma make_auth_request_Inr:
  "(make_auth_request env dat c = (Inr u, c')) = (auth_try env dat c = (Inr u, c'))"
  by (cases "auth_try env dat c"; cases "fst (auth_try env dat c)")
     (auto simp: make_auth_request_def)

lemma map_of_update_same: "map_of (AList.update k v al) k = Some v"
  by (simp add: update_conv')

subsection \<open>The samples, run\<close>

lemma reply_field_token:
  "reply_field token_json ''user'' = Inr (PDict [(''id'', PInt 7)])"
  "reply_field token_json ''access_token'' = Inr (PStr ''tokA'')"
  "reply_field token_json ''refresh_token'' = Inr (PStr ''tokR'')"
  by (simp_all add: reply_field_def bind_def getitem_def token_json_def)

lemma reply_field_partial:
  "reply_field partial_json ''user'' = Inr (PDict [(''id'', PInt 7)])"
  "reply_field partial_json ''access_token'' = Inr (PStr ''tokA'')"
  "reply_field partial_json ''refresh_token'' = Inl (KeyError ''refresh_token'')"
  by (simp_all add: reply_field_def bind_def getitem_def partial_json_def)

lemma reply_field_refused:
  "reply_field refused_json ''user'' = Inl (KeyError ''response'')"
  by (simp add: reply_field_def bind_def getitem_def refused_json_def)

lemma auth_call_partial:
  "auth_call (sample_env (reply 200 partial_body)) g sample_client =
     (Inl (LoginError (KeyError ''refresh_token'')),
      (logged sample_client (auth_request sample_client (grant_data g)))
        \<lparr>account := Some (Struct (PDict [(''id'', PInt 7)])), access_token := PStr ''tokA''\<rparr>)"
  using auth_try_no_refresh_token
    [of "sample_env (reply 200 partial_body)" sample_client "grant_data g"
        "\<lparr> status_code = 200, resp_text = partial_body \<rparr>" partial_json
        "PDict [(''id'', PInt 7)]" "PStr ''tokA''" "KeyError ''refresh_token''"]
  by (simp add: auth_call_eq make_auth_request_def reply_def sample_loads_partial
        reply_field_partial)

lemma auth_call_refused:
  "auth_call (sample_env (reply 200 refused_body)) g sample_client =
     (Inl (LoginError (KeyError ''response'')),
      logged sample_client (auth_request sample_client (grant_data g)))"
  using auth_try_no_user
    [of "sample_env (reply 200 refused_body)" sample_client "grant_data g"
        "\<lparr> status_code = 200, resp_text = refused_body \<rparr>" refused_json
        "KeyError ''response''"]
  by (simp add: auth_call_eq make_auth_request_def reply_def sample_loads_refused
        reply_field_refused)

lemma auth_call_token:
  "auth_call (sample_env (reply 200 token_body)) g sample_client =
     (Inr (),
      (logged sample_client (auth_request sample_client (grant_data g)))
        \<lparr>account := Some (Struct (PDict [(''id'', PInt 7)])),
         access_token := PStr ''tokA'', refresh_token := PStr ''tokR'',
         session := (session (logged sample_client (auth_request sample_client (grant_data g))))
           \<lparr>headers := [(''Accept'', ''*/*''), (''App-OS'', ''ios''),
                        (''Accept-Language'', ''English''),
                        (''Authorization'', ''Bearer tokA'')]\<rparr>\<rparr>)"
  using auth_try_complete
    [of "sample_env (reply 200 token_body)" sample_client "grant_data g"
        "\<lparr> status_code = 200, resp_text = token_body \<rparr>" token_json
        "PDict [(''id'', PInt 7)]" "PStr ''tokA''" "PStr ''tokR''"]
  by (simp add: auth_call_eq make_auth_request_def reply_def sample_loads_token
        reply_field_token sample_client_headers py_str_def)

lemma logged_fields [simp]:
  "account (logged c req) = account c"
  "access_token (logged c req) = access_token c"
  "refresh_token (logged c req) = refresh_token c"
  "obj_id (logged c req) = obj_id c"
  "headers (session (logged c req)) = headers (session c)"
  "calls (session (logged c req)) = calls (session c) @ [req]"
  by (simp_all add: logged_def)

subsection \<open>Failure of the exchange\<close>

text \<open>
  C1, as the code has it. The claim as stated fails: a response that has \<open>user\<close> and
  \<open>access_token\<close> but no \<open>refresh_token\<close> makes the exchange fail with LoginError after
  \<open>account\<close> and \<open>access_token\<close> have been assigned.
\<close>

theorem auth_failure_partial_commit_counterexample:
  "fst (login (sample_env (reply 200 partial_body)) ''user'' ''pw'' sample_client)
     = Inl (LoginError (KeyError ''refresh_token''))
   \<and> access_token sample_client = PNone
   \<and> access_token (snd (login (sample_env (reply 200 partial_body)) ''user'' ''pw''
                            sample_client)) = PStr ''tokA''
   \<and> account sample_client = None
   \<and> account (snd (login (sample_env (reply 200 partial_body)) ''user'' ''pw''
                       sample_client)) = Some (Struct (PDict [(''id'', PInt 7)]))"
  using auth_call_partial [of "Password ''user'' ''pw''"] by simp

text \<open>
  C1, amended. When \<open>login\<close> or \<open>authenticate\<close> fails, \<open>refresh_token\<close> and the session's
  default headers are what they were before the call. \<open>access_token\<close> is what it was
  unless the failure is the missing \<open>refresh_token\<close> key, and \<open>account\<close> is what it was
  unless the failure is the missing \<open>access_token\<close> or \<open>refresh_token\<close> key. So after a
  transport failure, a JSON-decode failure, or a missing \<open>response\<close> or \<open>user\<close> key, all
  three fields are unchanged.
\<close>

theorem auth_failure_state:
  assumes "auth_call env g c = (Inl e, c')"
  shows "refresh_token c' = refresh_token c
       \<and> headers (session c') = headers (session c)
       \<and> (access_token c' = access_token c \<or> e = LoginError (KeyError ''refresh_token''))
       \<and> (account c' = account c \<or> e = LoginError (KeyError ''access_token'')
            \<or> e = LoginError (KeyError ''refresh_token''))"
  using assms make_auth_request_failure [of env "grant_data g" c e c']
  by (simp add: auth_call_eq)

theorem auth_failure_state_witness:
  "auth_call (sample_env (reply 200 refused_body)) (RefreshToken ''old'') sample_client
     = (Inl (LoginError (KeyError ''response'')),
        logged sample_client (auth_request sample_client (grant_data (RefreshToken ''old''))))
   \<and> refresh_token (snd (auth_call (sample_env (reply 200 refused_body)) (RefreshToken ''old'')
                             sample_client)) = PNone
   \<and> access_token (snd (auth_call (sample_env (reply 200 refused_body)) (RefreshToken ''old'')
                            sample_client)) = PNone
   \<and> account (snd (auth_call (sample_env (reply 200 refused_body)) (RefreshToken ''old'')
                       sample_client)) = None"
  using auth_failure_state
    [of "sample_env (reply 200 refused_body)" "RefreshToken ''old''" sample_client
        "LoginError (KeyError ''response'')"
        "logged sample_client (auth_request sample_client (grant_data (RefreshToken ''old'')))"]
    auth_call_refused [of "RefreshToken ''old''"]
  by simp

subsection \<open>Success of the exchange\<close>

text \<open>
  C5. When \<open>login\<close> or \<open>authenticate\<close> returns normally, the transport returned a response
  whose decoded body has \<open>response.access_token\<close> and \<open>response.refresh_token\<close>; the
  session's default headers then map \<open>Authorization\<close> to \<open>"Bearer "\<close> followed by that
  access token (for a string token, the string itself), and the client's \<open>access_token\<close>
  and \<open>refresh_token\<close> are the two tokens of that response.
\<close>

theorem auth_success_state:
  assumes "auth_call env g c = (Inr u, c')"
  shows "\<exists>response r resp tok rtok.
           send env (session c) (auth_request c (grant_data g)) = Returned response
         \<and> json_loads env (resp_text response) = Some r
         \<and> getitem r ''response'' = Inr resp
         \<and> getitem resp ''access_token'' = Inr tok
         \<and> getitem resp ''refresh_token'' = Inr rtok
         \<and> map_of (headers (session c')) ''Authorization''
             = Some (''Bearer '' @ py_str (py_repr env) tok)
         \<and> (\<forall>s. tok = PStr s \<longrightarrow>
               map_of (headers (session c')) ''Authorization'' = Some (''Bearer '' @ s))
         \<and> access_token c' = tok
         \<and> refresh_token c' = rtok"
proof -
  from assms have "auth_try env (grant_data g) c = (Inr u, c')"
    by (simp add: auth_call_eq make_auth_request_Inr)
  from auth_try_success [OF this]
  obtain response r usr tok rtok where
    s: "send env (session c) (auth_request c (grant_data g)) = Returned response"
    and j: "json_loads env (resp_text response) = Some r"
    and t: "reply_field r ''access_token'' = Inr tok"
    and rt: "reply_field r ''refresh_token'' = Inr rtok"
    and c': "c' = (logged c (auth_request c (grant_data g)))
              \<lparr>account := Some (Struct usr), access_token := tok, refresh_token := rtok,
               session := (session (logged c (auth_request c (grant_data g))))\<lparr>headers :=
                 AList.update ''Authorization'' (''Bearer '' @ py_str (py_repr env) tok)
                   (headers (session c))\<rparr>\<rparr>"
    by blast
  from t obtain resp where g1: "getitem r ''response'' = Inr resp"
    and g2: "getitem resp ''access_token'' = Inr tok"
    by (auto simp: reply_field_Inr)
  from rt g1 have g3: "getitem resp ''refresh_token'' = Inr rtok"
    by (auto simp: reply_field_Inr)
  have h: "map_of (headers (session c')) ''Authorization''
             = Some (''Bearer '' @ py_str (py_repr env) tok)"
    by (simp add: c' map_of_update_same)
  have hs: "\<forall>s. tok = PStr s \<longrightarrow>
               map_of (headers (session c')) ''Authorization'' = Some (''Bearer '' @ s)"
    using h by (simp add: py_str_def)
  have a: "access_token c' = tok" and b: "refresh_token c' = rtok"
    by (simp_all add: c')
  from s j g1 g2 g3 h hs a b show ?thesis by blast
qed

theorem auth_success_state_witness:
  "fst (auth_call (sample_env (reply 200 token_body)) (Password ''user'' ''pw'') sample_client)
     = Inr ()
   \<and> map_of (headers (session (snd (auth_call (sample_env (reply 200 token_body))
                                         (Password ''user'' ''pw'') sample_client))))
        ''Authorization'' = Some ''Bearer tokA''
   \<and> access_token (snd (auth_call (sample_env (reply 200 token_body))
                            (Password ''user'' ''pw'') sample_client)) = PStr ''tokA''
   \<and> refresh_token (snd (auth_call (sample_env (reply 200 token_body))
                             (Password ''user'' ''pw'') sample_client)) = PStr ''tokR''
   \<and> (\<exists>response r resp.
         send (sample_env (reply 200 token_body)) (session sample_client)
           (auth_request sample_client (grant_data (Password ''user'' ''pw''))) = Returned response
       \<and> json_loads (sample_env (reply 200 token_body)) (resp_text response) = Some r
       \<and> getitem r ''response'' = Inr resp
       \<and> getitem resp ''access_token'' = Inr (PStr ''tokA'')
       \<and> getitem resp ''refresh_token'' = Inr (PStr ''tokR''))"
proof -
  let ?E = "sample_env (reply 200 token_body)"
  let ?G = "Password ''user'' ''pw''"
  obtain c' where run: "auth_call ?E ?G sample_client = (Inr (), c')"
    and a: "access_token c' = PStr ''tokA''" and b: "refresh_token c' = PStr ''tokR''"
    and h: "map_of (headers (session c')) ''Authorization'' = Some ''Bearer tokA''"
    using auth_call_token [of ?G] by simp
  from auth_success_state [OF run] a b
  have "\<exists>response r resp.
         send ?E (session sample_client) (auth_request sample_client (grant_data ?G))
           = Returned response
       \<and> json_loads ?E (resp_text response) = Some r
       \<and> getitem r ''response'' = Inr resp
       \<and> getitem resp ''access_token'' = Inr (PStr ''tokA'')
       \<and> getitem resp ''refresh_token'' = Inr (PStr ''tokR'')"
    by metis
  with run a b h show ?thesis by simp
qed

subsection \<open>The failures the except clause catches\<close>

lemma make_auth_request_caught:
  "auth_try env dat c = (Inl e, c') \<Longrightarrow> auth_caught e \<Longrightarrow>
   make_auth_request env dat c = (Inl (LoginError e), c')"
  by (simp add: make_auth_request_def)

lemma auth_missing_key:
  assumes s: "send env (session c) (auth_request c dat) = Returned response"
    and j: "json_loads env (resp_text response) = Some r"
    and m: "reply_field r key = Inl (KeyError k)"
    and key: "key = ''user'' \<or> key = ''access_token'' \<or> key = ''refresh_token''"
  shows "\<exists>k'. fst (make_auth_request env dat c) = Inl (LoginError (KeyError k'))"
proof (cases "reply_field r ''user''")
  case (Inl e1)
  from reply_field_KeyError_any [OF m Inl] obtain k' where "e1 = KeyError k'" ..
  with auth_try_no_user [OF s j Inl] show ?thesis
    by (auto simp: make_auth_request_def)
next
  case usr: (Inr usr)
  show ?thesis
  proof (cases "reply_field r ''access_token''")
    case (Inl e2)
    from reply_field_KeyError_any [OF m Inl] obtain k' where "e2 = KeyError k'" ..
    with auth_try_no_access_token [OF s j usr Inl] show ?thesis
      by (auto simp: make_auth_request_def)
  next
    case tok: (Inr tok)
    show ?thesis
    proof (cases "reply_field r ''refresh_token''")
      case (Inl e3)
      from reply_field_KeyError_any [OF m Inl] obtain k' where "e3 = KeyError k'" ..
      with auth_try_no_refresh_token [OF s j usr tok Inl] show ?thesis
        by (auto simp: make_auth_request_def)
    next
      case (Inr rtok)
      with usr tok m key show ?thesis by auto
    qed
  qed
qed

text \<open>
  What the \<open>except\<close> clause catches. In the exchange of \<open>login\<close> or \<open>authenticate\<close>:
  when the transport raises, the caller gets LoginError; when the body does not decode,
  the caller gets LoginError; when a subscript for \<open>response\<close>, \<open>user\<close>, \<open>access_token\<close> or
  \<open>refresh_token\<close> raises KeyError, the caller gets LoginError; and when all the expected
  keys are there, the call returns normally.
\<close>

lemma auth_listed_failures:
  "(send env (session c) (auth_request c (grant_data g)) = Raised \<longrightarrow>
      fst (auth_call env g c) = Inl (LoginError RequestException))
   \<and> (\<forall>response.
        send env (session c) (auth_request c (grant_data g)) = Returned response
        \<and> json_loads env (resp_text response) = None \<longrightarrow>
        fst (auth_call env g c) = Inl (LoginError JSONDecodeError))
   \<and> (\<forall>response r key k.
        send env (session c) (auth_request c (grant_data g)) = Returned response
        \<and> json_loads env (resp_text response) = Some r
        \<and> (key = ''user'' \<or> key = ''access_token'' \<or> key = ''refresh_token'')
        \<and> reply_field r key = Inl (KeyError k) \<longrightarrow>
        (\<exists>k'. fst (auth_call env g c) = Inl (LoginError (KeyError k'))))
   \<and> (\<forall>response r usr tok rtok.
        send env (session c) (auth_request c (grant_data g)) = Returned response
        \<and> json_loads env (resp_text response) = Some r
        \<and> reply_field r ''user'' = Inr usr
        \<and> reply_field r ''access_token'' = Inr tok
        \<and> reply_field r ''refresh_token'' = Inr rtok \<longrightarrow>
        fst (auth_call env g c) = Inr ())"
proof -
  have a: "send env (session c) (auth_request c (grant_data g)) = Raised \<Longrightarrow>
      fst (auth_call env g c) = Inl (LoginError RequestException)"
    using auth_try_Raised [of env c "grant_data g"]
    by (simp add: auth_call_eq make_auth_request_def)
  have b: "\<And>response.
        send env (session c) (auth_request c (grant_data g)) = Returned response \<Longrightarrow>
        json_loads env (resp_text response) = None \<Longrightarrow>
        fst (auth_call env g c) = Inl (LoginError JSONDecodeError)"
    using auth_try_undecodable [of env c "grant_data g"]
    by (simp add: auth_call_eq make_auth_request_def)
  have d: "\<And>response r key k.
        send env (session c) (auth_request c (grant_data g)) = Returned response \<Longrightarrow>
        json_loads env (resp_text response) = Some r \<Longrightarrow>
        key = ''user'' \<or> key = ''access_token'' \<or> key = ''refresh_token'' \<Longrightarrow>
        reply_field r key = Inl (KeyError k) \<Longrightarrow>
        \<exists>k'. fst (auth_call env g c) = Inl (LoginError (KeyError k'))"
    using auth_missing_key [of env c "grant_data g"] by (simp add: auth_call_eq)
  have e: "\<And>response r usr tok rtok.
        send env (session c) (auth_request c (grant_data g)) = Returned response \<Longrightarrow>
        json_loads env (resp_text response) = Some r \<Longrightarrow>
        reply_field r ''user'' = Inr usr \<Longrightarrow>
        reply_field r ''access_token'' = Inr tok \<Longrightarrow>
        reply_field r ''refresh_token'' = Inr rtok \<Longrightarrow>
        fst (auth_call env g c) = Inr ()"
    using auth_try_complete [of env c "grant_data g"]
    by (simp add: auth_call_eq make_auth_request_def)
  have A: "send env (session c) (auth_request c (grant_data g)) = Raised \<longrightarrow>
      fst (auth_call env g c) = Inl (LoginError RequestException)"
    using a by (rule impI)
  have B: "\<forall>response.
        send env (session c) (auth_request c (grant_data g)) = Returned response
        \<and> json_loads env (resp_text response) = None \<longrightarrow>
        fst (auth_call env g c) = Inl (LoginError JSONDecodeError)"
    using b by (intro allI impI) (elim conjE)
  have D: "\<forall>response r key k.
        send env (session c) (auth_request c (grant_data g)) = Returned response
        \<and> json_loads env (resp_text response) = Some r
        \<and> (key = ''user'' \<or> key = ''access_token'' \<or> key = ''refresh_token'')
        \<and> reply_field r key = Inl (KeyError k) \<longrightarrow>
        (\<exists>k'. fst (auth_call env g c) = Inl (LoginError (KeyError k')))"
    using d by (intro allI impI) (elim conjE)
  have E: "\<forall>response r usr tok rtok.
        send env (session c) (auth_request c (grant_data g)) = Returned response
        \<and> json_loads env (resp_text response) = Some r
        \<and> reply_field r ''user'' = Inr usr
        \<and> reply_field r ''access_token'' = Inr tok
        \<and> reply_field r ''refresh_token'' = Inr rtok \<longrightarrow>
        fst (auth_call env g c) = Inr ()"
    using e by (intro allI impI) (elim conjE)
  show ?thesis by (intro conjI) (rule A, rule B, rule D, rule E)
qed

text \<open>What else the exchange can raise: only the TypeError of a subscript on a value that
  is not a dictionary.\<close>

lemma getitem_error: "getitem v k = Inl e \<Longrightarrow> e = KeyError k \<or> e = TypeError"
  by (cases v) (auto simp: getitem_def split: option.splits)

lemma reply_field_error: "reply_field r k = Inl e \<Longrightarrow> (\<exists>j. e = KeyError j) \<or> e = TypeError"
  by (cases "getitem r ''response''") (auto simp: reply_field_def bind_def dest: getitem_error)

subsection \<open>A body that is not shaped as expected\<close>

lemma auth_try_uncaught:
  assumes "send env (session c) (auth_request c dat) = Returned response"
    and "json_loads env (resp_text response) = Some r"
    and "reply_field r ''user'' = Inl TypeError"
  shows "make_auth_request env dat c = (Inl TypeError, logged c (auth_request c dat))"
  using auth_try_no_user [OF assms] by (simp add: make_auth_request_def)

lemma reply_field_null_response:
  "reply_field null_response_json ''user'' = Inl TypeError"
  by (simp add: reply_field_def bind_def getitem_def null_response_json_def)

text \<open>
  C9 at the failing input. The token endpoint answers 200 with the body
  \<open>{"response": null}\<close>: the body decodes, and the expected keys \<open>user\<close>, \<open>access_token\<close> and
  \<open>refresh_token\<close> are missing from it. \<open>r['response']['user']\<close> raises TypeError, which the
  \<open>except\<close> clause does not name, so \<open>login\<close> and \<open>authenticate\<close> raise TypeError to the
  caller and not LoginError.
\<close>

theorem auth_null_response_raises_TypeError:
  "json_loads (sample_env (reply 200 null_response_body)) null_response_body
     = Some (PDict [(''response'', PNone)])
   \<and> fst (login (sample_env (reply 200 null_response_body)) ''user'' ''pw'' sample_client)
     = Inl TypeError
   \<and> fst (authenticate (sample_env (reply 200 null_response_body)) ''old'' sample_client)
     = Inl TypeError"
proof -
  have "fst (auth_call (sample_env (reply 200 null_response_body)) g sample_client)
          = Inl TypeError" for g
    using auth_try_uncaught
      [of "sample_env (reply 200 null_response_body)" sample_client "grant_data g"
          "\<lparr> status_code = 200, resp_text = null_response_body \<rparr>" null_response_json]
    by (simp add: auth_call_eq reply_def sample_loads_null_response reply_field_null_response)
  from this [of "Password ''user'' ''pw''"] this [of "RefreshToken ''old''"]
  show ?thesis
    by (simp add: sample_loads_null_response null_response_json_def)
qed

section \<open>The authentication guard\<close>

lemma never_logged_in_refresh_token: "never_logged_in c \<Longrightarrow> refresh_token c = PNone"
proof (induction rule: never_logged_in.induct)
  case (fresh fresh HEADERS oid lang cid csecret)
  show ?case by (simp add: Client_init_def Let_def)
next
  case (failed c env g e c')
  from make_auth_request_failure [of env "grant_data g" c e c'] failed show ?case
    by (simp add: auth_call_eq)
next
  case (called c req)
  then show ?case by simp
qed

lemma never_logged_in_guard: "never_logged_in c \<Longrightarrow> \<not> authenticated c"
  by (simp add: authenticated_def never_logged_in_refresh_token)

lemma require_auth_rejects:
  "\<not> authenticated c \<Longrightarrow> require_auth f c = (Inl PreconditionFailure, c)"
  by (simp add: require_auth_def)

text \<open>
  C4. On a client that has never completed a successful login or refresh, each of the
  sixteen methods carrying the guard raises the "requires login" error and leaves the client
  as it was: in particular the list of calls that reached the transport is unchanged, so
  no network call is made.
\<close>

theorem gated_methods_require_login:
  assumes "never_logged_in c"
  shows "search_illustrations env word search_target sort' duration offset c
           = (Inl PreconditionFailure, c)
       \<and> fetch_illustration env illustration_id c = (Inl PreconditionFailure, c)
       \<and> fetch_illustration_comments env illustration_id offset include_total_comments c
           = (Inl PreconditionFailure, c)
       \<and> fetch_illustration_related env illustration_id offset c = (Inl PreconditionFailure, c)
       \<and> fetch_illustrations_following env visibility offset c = (Inl PreconditionFailure, c)
       \<and> fetch_illustrations_recommended env content_type include_ranking_illustrations
            max_bookmark_id_for_recommend min_bookmark_id_for_recent_illustrations offset
            bookmark_illust_ids include_ranking_label c = (Inl PreconditionFailure, c)
       \<and> fetch_illustrations_ranking env mode date offset c = (Inl PreconditionFailure, c)
       \<and> fetch_trending_tags env c = (Inl PreconditionFailure, c)
       \<and> fetch_bookmark env illustration_id c = (Inl PreconditionFailure, c)
       \<and> add_bookmark env illustration_id visibility c = (Inl PreconditionFailure, c)
       \<and> delete_bookmark env illustration_id c = (Inl PreconditionFailure, c)
       \<and> fetch_user_bookmarks env user_id visibility max_bookmark_id tag c
           = (Inl PreconditionFailure, c)
       \<and> fetch_user_bookmark_tags env visibility offset c = (Inl PreconditionFailure, c)
       \<and> fetch_following env user_id visibility offset c = (Inl PreconditionFailure, c)
       \<and> fetch_followers env user_id offset c = (Inl PreconditionFailure, c)
       \<and> fetch_my_pixiv env user_id offset c = (Inl PreconditionFailure, c)
       \<and> calls (session (snd (search_illustrations env word search_target sort' duration
                                  offset c))) = calls (session c)"
proof -
  note r = require_auth_rejects [OF never_logged_in_guard [OF assms]]
  show ?thesis
    unfolding search_illustrations_def fetch_illustration_def fetch_illustration_comments_def
      fetch_illustration_related_def fetch_illustrations_following_def
      fetch_illustrations_recommended_def fetch_illustrations_ranking_def
      fetch_trending_tags_def fetch_bookmark_def add_bookmark_def delete_bookmark_def
      fetch_user_bookmarks_def fetch_user_bookmark_tags_def fetch_following_def
      fetch_followers_def fetch_my_pixiv_def
    by (simp add: r)
qed

lemma never_logged_in_after_partial:
  "never_logged_in (snd (login (sample_env (reply 200 partial_body)) ''user'' ''pw''
                           sample_client))"
proof -
  have "never_logged_in sample_client"
    unfolding sample_client_def by (rule never_logged_in.fresh)
  moreover have "auth_call (sample_env (reply 200 partial_body)) (Password ''user'' ''pw'')
           sample_client
         = (Inl (LoginError (KeyError ''refresh_token'')),
            snd (login (sample_env (reply 200 partial_body)) ''user'' ''pw'' sample_client))"
    using auth_call_partial [of "Password ''user'' ''pw''"] by simp
  ultimately show ?thesis by (rule never_logged_in.failed)
qed

theorem gated_methods_require_login_witness:
  "never_logged_in sample_client
   \<and> search_illustrations (sample_env (reply 200 page_body)) ''sky''
        (Enum ''TAGS_PARTIAL'' (PStr ''partial_match_for_tags''))
        (Enum ''DATE_DESC'' (PStr ''date_desc'')) None None sample_client
      = (Inl PreconditionFailure, sample_client)
   \<and> calls (session (snd (search_illustrations (sample_env (reply 200 page_body)) ''sky''
        (Enum ''TAGS_PARTIAL'' (PStr ''partial_match_for_tags''))
        (Enum ''DATE_DESC'' (PStr ''date_desc'')) None None sample_client))) = []
   \<and> never_logged_in (snd (login (sample_env (reply 200 partial_body)) ''user'' ''pw''
                              sample_client))
   \<and> access_token (snd (login (sample_env (reply 200 partial_body)) ''user'' ''pw''
                            sample_client)) = PStr ''tokA''
   \<and> fst (fetch_trending_tags (sample_env (reply 200 trending_body))
            (snd (login (sample_env (reply 200 partial_body)) ''user'' ''pw'' sample_client)))
      = Inl PreconditionFailure"
proof -
  have f: "never_logged_in sample_client"
    unfolding sample_client_def by (rule never_logged_in.fresh)
  from gated_methods_require_login [OF f]
  have a: "search_illustrations (sample_env (reply 200 page_body)) ''sky''
        (Enum ''TAGS_PARTIAL'' (PStr ''partial_match_for_tags''))
        (Enum ''DATE_DESC'' (PStr ''date_desc'')) None None sample_client
      = (Inl PreconditionFailure, sample_client)"
    by blast
  from gated_methods_require_login [OF never_logged_in_after_partial]
  have b: "fst (fetch_trending_tags (sample_env (reply 200 trending_body))
            (snd (login (sample_env (reply 200 partial_body)) ''user'' ''pw'' sample_client)))
      = Inl PreconditionFailure"
    by simp
  have t: "access_token (snd (login (sample_env (reply 200 partial_body)) ''user'' ''pw''
                            sample_client)) = PStr ''tokA''"
    using auth_call_partial [of "Password ''user'' ''pw''"] by simp
  from f a b t never_logged_in_after_partial show ?thesis by simp
qed

section \<open>Pagination cursor extraction\<close>

lemma query_string_prefix:
  assumes "CHR ''?'' \<notin> set pre" and "CHR ''#'' \<notin> set pre"
  shows "query_string (pre @ CHR ''/'' # CHR ''x'' # CHR ''?'' # q)
           = takeWhile (\<lambda>ch. ch \<noteq> CHR ''#'') q"
proof -
  have np: "\<And>ch. ch \<in> set pre \<Longrightarrow> ch \<noteq> CHR ''?''"
    and nh: "\<And>ch. ch \<in> set pre \<Longrightarrow> ch \<noteq> CHR ''#''"
    using assms by auto
  have "takeWhile (\<lambda>ch. ch \<noteq> CHR ''#'') (pre @ CHR ''/'' # CHR ''x'' # CHR ''?'' # q)
          = pre @ CHR ''/'' # CHR ''x'' # CHR ''?'' # takeWhile (\<lambda>ch. ch \<noteq> CHR ''#'') q"
    using nh by simp
  moreover have "dropWhile (\<lambda>ch. ch \<noteq> CHR ''?'')
          (pre @ CHR ''/'' # CHR ''x'' # CHR ''?'' # takeWhile (\<lambda>ch. ch \<noteq> CHR ''#'') q)
          = CHR ''?'' # takeWhile (\<lambda>ch. ch \<noteq> CHR ''#'') q"
    using np by simp
  ultimately show ?thesis by (simp add: query_string_def)
qed

lemma query_pairs_example:
  assumes "CHR ''?'' \<notin> set pre" and "CHR ''#'' \<notin> set pre"
  shows "query_pairs (pre @ ''/x?offset=30&foo=bar'') = [(''offset'', ''30''), (''foo'', ''bar'')]"
  using query_string_prefix [OF assms, of "''offset=30&foo=bar''"]
  by (simp add: query_pairs_def)

lemma numeric_30: "numeric ''30''" "int_of_digits ''30'' = 30"
  by (simp_all add: numeric_def is_digit_def int_of_digits_def)

subsection \<open>Query strings written out from their parameters\<close>

lemma split_on_not_Nil: "split_on sep s \<noteq> []"
  by (induction s) (auto split: list.splits)

lemma split_on_plain: "sep \<notin> set a \<Longrightarrow> split_on sep a = [a]"
  by (induction a) (auto split: list.splits)

lemma split_on_append:
  "sep \<notin> set a \<Longrightarrow> split_on sep (a @ sep # rest) = a # split_on sep rest"
  by (induction a) (auto split: list.splits)

lemma split_on_render_query:
  assumes "\<forall>kv\<in>set kvs. CHR ''&'' \<notin> set (fst kv) \<and> CHR ''&'' \<notin> set (snd kv)"
    and "kvs \<noteq> []"
  shows "split_on CHR ''&'' (render_query kvs) = map (\<lambda>kv. fst kv @ CHR ''='' # snd kv) kvs"
  using assms
proof (induction kvs)
  case Nil
  then show ?case by simp
next
  case (Cons kv rest)
  then have p: "CHR ''&'' \<notin> set (fst kv @ CHR ''='' # snd kv)"
    by simp
  show ?case
  proof (cases "rest = []")
    case True
    with p show ?thesis by (simp add: split_on_plain)
  next
    case False
    with Cons have "split_on CHR ''&'' (render_query rest)
        = map (\<lambda>kv. fst kv @ CHR ''='' # snd kv) rest"
      by simp
    with False split_on_append [OF p, of "render_query rest"] show ?thesis
      by simp
  qed
qed

lemma render_query_no_hash:
  "\<forall>kv\<in>set kvs. CHR ''#'' \<notin> set (fst kv) \<and> CHR ''#'' \<notin> set (snd kv) \<Longrightarrow>
   CHR ''#'' \<notin> set (render_query kvs)"
  by (induction kvs) auto

lemma pair_of_piece:
  assumes "CHR ''='' \<notin> set k"
  shows "takeWhile (\<lambda>ch. ch \<noteq> CHR ''='') (k @ CHR ''='' # v) = k"
    and "drop 1 (dropWhile (\<lambda>ch. ch \<noteq> CHR ''='') (k @ CHR ''='' # v)) = v"
proof -
  have n: "\<And>ch. ch \<in> set k \<Longrightarrow> ch \<noteq> CHR ''=''"
    using assms by auto
  show "takeWhile (\<lambda>ch. ch \<noteq> CHR ''='') (k @ CHR ''='' # v) = k"
    using n by simp
  show "drop 1 (dropWhile (\<lambda>ch. ch \<noteq> CHR ''='') (k @ CHR ''='' # v)) = v"
    using n by simp
qed

lemma query_string_question:
  assumes "CHR ''?'' \<notin> set pre" and "CHR ''#'' \<notin> set pre" and "CHR ''#'' \<notin> set q"
  shows "query_string (pre @ CHR ''?'' # q) = q"
proof -
  have np: "\<And>ch. ch \<in> set pre \<Longrightarrow> ch \<noteq> CHR ''?''"
    and nh: "\<And>ch. ch \<in> set (pre @ CHR ''?'' # q) \<Longrightarrow> ch \<noteq> CHR ''#''"
    using assms by auto
  have t: "takeWhile (\<lambda>ch. ch \<noteq> CHR ''#'') (pre @ CHR ''?'' # q) = pre @ CHR ''?'' # q"
    using nh by simp
  have d: "dropWhile (\<lambda>ch. ch \<noteq> CHR ''?'') (pre @ CHR ''?'' # q) = CHR ''?'' # q"
    using np by simp
  show ?thesis unfolding query_string_def t d by simp
qed

lemma query_pairs_render_query:
  assumes pre: "CHR ''?'' \<notin> set pre" "CHR ''#'' \<notin> set pre"
    and kvs: "\<forall>kv\<in>set kvs.
        CHR ''&'' \<notin> set (fst kv) \<and> CHR ''='' \<notin> set (fst kv) \<and> CHR ''#'' \<notin> set (fst kv)
        \<and> CHR ''&'' \<notin> set (snd kv) \<and> CHR ''#'' \<notin> set (snd kv)"
  shows "query_pairs (pre @ CHR ''?'' # render_query kvs) = kvs"
proof -
  from kvs have h: "CHR ''#'' \<notin> set (render_query kvs)"
    by (intro render_query_no_hash) simp
  note q = query_string_question [OF pre h]
  show ?thesis
  proof (cases "kvs = []")
    case True
    with q show ?thesis by (simp add: query_pairs_def)
  next
    case False
    from kvs have a: "\<forall>kv\<in>set kvs. CHR ''&'' \<notin> set (fst kv) \<and> CHR ''&'' \<notin> set (snd kv)"
      by simp
    have "map (\<lambda>p. (takeWhile (\<lambda>ch. ch \<noteq> CHR ''='') p,
                    drop 1 (dropWhile (\<lambda>ch. ch \<noteq> CHR ''='') p)))
            (filter (\<lambda>p. p \<noteq> []) (map (\<lambda>kv. fst kv @ CHR ''='' # snd kv) kvs)) = kvs"
      using kvs
    proof (induction kvs)
      case Nil
      then show ?case by simp
    next
      case (Cons kv rest)
      then have e: "CHR ''='' \<notin> set (fst kv)" by simp
      from Cons have "map (\<lambda>p. (takeWhile (\<lambda>ch. ch \<noteq> CHR ''='') p,
                    drop 1 (dropWhile (\<lambda>ch. ch \<noteq> CHR ''='') p)))
            (filter (\<lambda>p. p \<noteq> []) (map (\<lambda>kv. fst kv @ CHR ''='' # snd kv) rest)) = rest"
        by simp
      with pair_of_piece [OF e, of "snd kv"] show ?case by simp
    qed
    with q split_on_render_query [OF a False] show ?thesis
      by (simp add: query_pairs_def)
  qed
qed

subsection \<open>Numeric values\<close>

lemma digit_char_value:
  assumes "d < 10"
  shows "is_digit (digit_char d)" and "of_char (digit_char d) = (48 + int d)"
proof -
  from assms have "d = 0 \<or> d = 1 \<or> d = 2 \<or> d = 3 \<or> d = 4 \<or> d = 5 \<or> d = 6 \<or> d = 7
      \<or> d = 8 \<or> d = 9"
    by arith
  then show "is_digit (digit_char d)" and "of_char (digit_char d) = (48 + int d)"
    by (auto simp: digit_char_def is_digit_def)
qed

lemma int_of_digits_snoc:
  "int_of_digits (s @ [ch]) = 10 * int_of_digits s + (of_char ch - 48)"
  by (simp add: int_of_digits_def)

lemma numeric_snoc: "numeric s \<Longrightarrow> is_digit ch \<Longrightarrow> numeric (s @ [ch])"
  by (simp add: numeric_def)

lemma str_nat_numeric: "numeric (str_nat n) \<and> int_of_digits (str_nat n) = int n"
proof (induction n rule: str_nat.induct)
  case (1 n)
  show ?case
  proof (cases "n < 10")
    case True
    with digit_char_value [of n] show ?thesis
      by (simp add: str_nat.simps [of n] numeric_def int_of_digits_def)
  next
    case False
    with 1 have ih: "numeric (str_nat (n div 10))"
      "int_of_digits (str_nat (n div 10)) = int (n div 10)"
      by simp_all
    have m: "n mod 10 < 10" by simp
    from False have s: "str_nat n = str_nat (n div 10) @ [digit_char (n mod 10)]"
      by (simp add: str_nat.simps [of n])
    have "int_of_digits (str_nat n) = 10 * int (n div 10) + int (n mod 10)"
      using ih digit_char_value [OF m] by (simp add: s int_of_digits_snoc)
    also have "\<dots> = int n"
      by presburger
    finally have "int_of_digits (str_nat n) = int n" .
    moreover have "numeric (str_nat n)"
      using ih digit_char_value [OF m] by (simp add: s numeric_snoc)
    ultimately show ?thesis by simp
  qed
qed

lemma str_nat_30: "str_nat 30 = ''30''"
  by code_simp

text \<open>
  C7. The cursor extraction returns \<open>None\<close> for an absent URL, and \<open>None\<close> for a URL whose
  query string has no parameter of the requested name. For a parameter that is there it
  returns that parameter's value: the number when the value is numeric, the string
  otherwise. A URL made of a prefix, \<open>?\<close> and the parameters \<open>k1=v1&k2=v2&...\<close> has exactly
  these parameters, so the extraction returns the value written for the requested name,
  \<open>n\<close> for a value that is the decimal rendering of \<open>n\<close>. For a URL that ends in
  \<open>/x?offset=30&foo=bar\<close> and the name \<open>offset\<close> it returns the number 30.
\<close>

theorem parse_qs_cursor:
  "parse_qs None param = PNone
   \<and> parse_qs (Some ''.../x?offset=30&foo=bar'') ''offset'' = PInt 30
   \<and> (CHR ''?'' \<notin> set pre \<and> CHR ''#'' \<notin> set pre \<longrightarrow>
        parse_qs (Some (pre @ ''/x?offset=30&foo=bar'')) ''offset'' = PInt 30)
   \<and> (param \<notin> fst ` set (query_pairs u) \<longrightarrow> parse_qs (Some u) param = PNone)
   \<and> (\<forall>v. map_of (query_pairs u) param = Some v \<longrightarrow>
        parse_qs (Some u) param = (if numeric v then PInt (int_of_digits v) else PStr v))
   \<and> (CHR ''?'' \<notin> set pre \<and> CHR ''#'' \<notin> set pre
       \<and> (\<forall>kv\<in>set kvs.
             CHR ''&'' \<notin> set (fst kv) \<and> CHR ''='' \<notin> set (fst kv) \<and> CHR ''#'' \<notin> set (fst kv)
             \<and> CHR ''&'' \<notin> set (snd kv) \<and> CHR ''#'' \<notin> set (snd kv)) \<longrightarrow>
        query_pairs (pre @ CHR ''?'' # render_query kvs) = kvs
        \<and> (map_of kvs param = None \<longrightarrow>
             parse_qs (Some (pre @ CHR ''?'' # render_query kvs)) param = PNone)
        \<and> (\<forall>n. map_of kvs param = Some (str_nat n) \<longrightarrow>
             parse_qs (Some (pre @ CHR ''?'' # render_query kvs)) param = PInt (int n))
        \<and> (\<forall>v. map_of kvs param = Some v \<and> \<not> numeric v \<longrightarrow>
             parse_qs (Some (pre @ CHR ''?'' # render_query kvs)) param = PStr v)
        \<and> (\<forall>v. map_of kvs param = Some v \<and> numeric v \<longrightarrow>
             parse_qs (Some (pre @ CHR ''?'' # render_query kvs)) param
               = PInt (int_of_digits v)))"
proof -
  have a: "parse_qs None param = PNone"
    by (simp add: parse_qs_def)
  have b: "CHR ''?'' \<notin> set pre \<Longrightarrow> CHR ''#'' \<notin> set pre \<Longrightarrow>
        parse_qs (Some (pre @ ''/x?offset=30&foo=bar'')) ''offset'' = PInt 30" for pre
    by (simp add: parse_qs_def query_pairs_example numeric_30)
  have d: "parse_qs (Some ''.../x?offset=30&foo=bar'') ''offset'' = PInt 30"
    using b [of "''...''"] by simp
  have e: "parse_qs (Some u) param = PNone" if "param \<notin> fst ` set (query_pairs u)"
  proof -
    from that have "map_of (query_pairs u) param = None"
      by (simp add: map_of_eq_None_iff)
    then show ?thesis by (simp add: parse_qs_def)
  qed
  have f: "\<forall>v. map_of (query_pairs u) param = Some v \<longrightarrow>
        parse_qs (Some u) param = (if numeric v then PInt (int_of_digits v) else PStr v)"
    by (simp add: parse_qs_def)
  have g: "query_pairs (pre @ CHR ''?'' # render_query kvs) = kvs
        \<and> (map_of kvs param = None \<longrightarrow>
             parse_qs (Some (pre @ CHR ''?'' # render_query kvs)) param = PNone)
        \<and> (\<forall>n. map_of kvs param = Some (str_nat n) \<longrightarrow>
             parse_qs (Some (pre @ CHR ''?'' # render_query kvs)) param = PInt (int n))
        \<and> (\<forall>v. map_of kvs param = Some v \<and> \<not> numeric v \<longrightarrow>
             parse_qs (Some (pre @ CHR ''?'' # render_query kvs)) param = PStr v)
        \<and> (\<forall>v. map_of kvs param = Some v \<and> numeric v \<longrightarrow>
             parse_qs (Some (pre @ CHR ''?'' # render_query kvs)) param
               = PInt (int_of_digits v))"
    if "CHR ''?'' \<notin> set pre \<and> CHR ''#'' \<notin> set pre
       \<and> (\<forall>kv\<in>set kvs.
             CHR ''&'' \<notin> set (fst kv) \<and> CHR ''='' \<notin> set (fst kv) \<and> CHR ''#'' \<notin> set (fst kv)
             \<and> CHR ''&'' \<notin> set (snd kv) \<and> CHR ''#'' \<notin> set (snd kv))"
  proof -
    from that have q: "query_pairs (pre @ CHR ''?'' # render_query kvs) = kvs"
      by (intro query_pairs_render_query) simp_all
    show ?thesis
      by (simp add: q parse_qs_def str_nat_numeric)
  qed
  from a d b [of pre] e f g show ?thesis by blast
qed

theorem parse_qs_cursor_witness:
  "query_pairs ''https://app-api.pixiv.net/x?offset=30&foo=bar''
     = [(''offset'', ''30''), (''foo'', ''bar'')]
   \<and> parse_qs (Some ''https://app-api.pixiv.net/x?offset=30&foo=bar'') ''offset'' = PInt 30
   \<and> parse_qs (Some ''https://app-api.pixiv.net/x?offset=30&foo=bar'') ''foo'' = PStr ''bar''
   \<and> parse_qs (Some ''https://app-api.pixiv.net/x?offset=30&foo=bar'') ''limit'' = PNone"
proof -
  let ?pre = "''https://app-api.pixiv.net/x''"
  let ?kvs = "[(''offset'', ''30''), (''foo'', ''bar'')]"
  have u: "?pre @ CHR ''?'' # render_query ?kvs = ''https://app-api.pixiv.net/x?offset=30&foo=bar''"
    by simp
  have p: "CHR ''?'' \<notin> set ?pre \<and> CHR ''#'' \<notin> set ?pre
       \<and> (\<forall>kv\<in>set ?kvs.
             CHR ''&'' \<notin> set (fst kv) \<and> CHR ''='' \<notin> set (fst kv) \<and> CHR ''#'' \<notin> set (fst kv)
             \<and> CHR ''&'' \<notin> set (snd kv) \<and> CHR ''#'' \<notin> set (snd kv))"
    by simp
  have nb: "\<not> numeric ''bar''"
    by (simp add: numeric_def is_digit_def)
  have o: "map_of ?kvs ''offset'' = Some (str_nat 30)"
    by (simp add: str_nat_30)
  from parse_qs_cursor [of "''offset''" ?pre "''x''" ?kvs] p o
  have a: "query_pairs (?pre @ CHR ''?'' # render_query ?kvs) = ?kvs"
    and b: "parse_qs (Some (?pre @ CHR ''?'' # render_query ?kvs)) ''offset'' = PInt (int 30)"
    by blast+
  from parse_qs_cursor [of "''foo''" ?pre "''x''" ?kvs] p nb
  have d: "parse_qs (Some (?pre @ CHR ''?'' # render_query ?kvs)) ''foo'' = PStr ''bar''"
    by simp
  from parse_qs_cursor [of "''limit''" ?pre "''x''" ?kvs] p
  have e: "parse_qs (Some (?pre @ CHR ''?'' # render_query ?kvs)) ''limit'' = PNone"
    by simp
  from a b d e show ?thesis unfolding u by simp
qed

section \<open>What a request puts on the wire\<close>

lemma encode_params_None: "PNone \<notin> snd ` set (encode_params ps)"
  by (auto simp: encode_params_def)

lemma encode_params_key:
  "(k \<in> fst ` set (encode_params ps)) =
     (\<exists>v x. (k, v) \<in> set ps \<and> x \<in> set (param_values v) \<and> x \<noteq> PNone)"
  by (force simp: encode_params_def)

lemma sent_keys_get:
  "(k \<in> sent_keys (get_request path ps)) =
     (\<exists>v x. (k, v) \<in> set ps \<and> x \<in> set (param_values v) \<and> x \<noteq> PNone)"
  by (simp add: sent_keys_def outgoing_query_def get_request_def encode_params_key)

lemma search_illustrations_unset:
  "''duration'' \<notin> sent_keys (search_illustrations_request word search_target sort' None offset)"
  "''offset'' \<notin> sent_keys (search_illustrations_request word search_target sort' duration None)"
  by (auto simp: sent_keys_get search_illustrations_request_def opt_def)

lemma fetch_illustration_comments_unset:
  "''offset'' \<notin> sent_keys
     (fetch_illustration_comments_request env illustration_id None include_total_comments)"
  by (auto simp: sent_keys_get fetch_illustration_comments_request_def opt_def)

lemma fetch_illustration_related_unset:
  "''offset'' \<notin> sent_keys (fetch_illustration_related_request illustration_id None)"
  by (auto simp: sent_keys_get fetch_illustration_related_request_def opt_def)

lemma fetch_illustrations_following_unset:
  "''offset'' \<notin> sent_keys (fetch_illustrations_following_request visibility offset)"
  by (auto simp: sent_keys_get fetch_illustrations_following_request_def)

lemma fetch_illustrations_recommended_unset:
  "''max_bookmark_id_for_recommend'' \<notin> sent_keys
     (fetch_illustrations_recommended_request env content_type include_ranking_illustrations
        None min_bookmark_id_for_recent_illustrations offset bookmark_illust_ids
        include_ranking_label)"
  "''min_bookmark_id_for_recent_illust'' \<notin> sent_keys
     (fetch_illustrations_recommended_request env content_type include_ranking_illustrations
        max_bookmark_id_for_recommend None offset bookmark_illust_ids include_ranking_label)"
  "''offset'' \<notin> sent_keys
     (fetch_illustrations_recommended_request env content_type include_ranking_illustrations
        max_bookmark_id_for_recommend min_bookmark_id_for_recent_illustrations None
        bookmark_illust_ids include_ranking_label)"
  "''bookmark_illust_ids'' \<notin> sent_keys
     (fetch_illustrations_recommended_request env content_type include_ranking_illustrations
        max_bookmark_id_for_recommend min_bookmark_id_for_recent_illustrations offset None
        include_ranking_label)"
  by (auto simp: sent_keys_get fetch_illustrations_recommended_request_def opt_def joined_ids_def)

lemma fetch_illustrations_ranking_unset:
  "''date'' \<notin> sent_keys (fetch_illustrations_ranking_request mode None offset)"
  "''offset'' \<notin> sent_keys (fetch_illustrations_ranking_request mode date None)"
  by (auto simp: sent_keys_get fetch_illustrations_ranking_request_def opt_def)

lemma fetch_user_illustrations_unset:
  "''type'' \<notin> sent_keys (fetch_user_illustrations_request user_id None offset)"
  "''offset'' \<notin> sent_keys (fetch_user_illustrations_request user_id type' None)"
  by (auto simp: sent_keys_get fetch_user_illustrations_request_def opt_def)

lemma fetch_user_bookmarks_unset:
  "''max_bookmark_id'' \<notin> sent_keys (fetch_user_bookmarks_request user_id visibility None tag)"
  "''tag'' \<notin> sent_keys (fetch_user_bookmarks_request user_id visibility max_bookmark_id None)"
  by (auto simp: sent_keys_get fetch_user_bookmarks_request_def opt_def)

lemma fetch_user_bookmark_tags_unset:
  "''offset'' \<notin> sent_keys (fetch_user_bookmark_tags_request visibility None)"
  by (auto simp: sent_keys_get fetch_user_bookmark_tags_request_def opt_def)

lemma fetch_following_unset:
  "''offset'' \<notin> sent_keys (fetch_following_request user_id visibility None)"
  by (auto simp: sent_keys_get fetch_following_request_def opt_def)

lemma fetch_followers_unset:
  "''offset'' \<notin> sent_keys (fetch_followers_request user_id None)"
  by (auto simp: sent_keys_get fetch_followers_request_def opt_def)

lemma fetch_my_pixiv_unset:
  "''offset'' \<notin> sent_keys (fetch_my_pixiv_request user_id None)"
  by (auto simp: sent_keys_get fetch_my_pixiv_request_def opt_def)

lemma outgoing_None:
  "PNone \<notin> snd ` set (outgoing_query req)" "PNone \<notin> snd ` set (outgoing_form req)"
proof -
  show "PNone \<notin> snd ` set (outgoing_query req)"
    by (cases "params req") (simp_all add: outgoing_query_def encode_params_None)
  show "PNone \<notin> snd ` set (outgoing_form req)"
    by (cases "data req") (simp_all add: outgoing_form_def encode_params_None)
qed

lemma recommended_params_unset:
  "\<exists>ps. params (fetch_illustrations_recommended_request env content_type
                   include_ranking_illustrations max_bookmark_id_for_recommend None offset
                   bookmark_illust_ids include_ranking_label) = Some ps
        \<and> map_of ps ''min_bookmark_id_for_recent_illust'' = Some (PTuple [PNone])"
  by (simp add: fetch_illustrations_recommended_request_def get_request_def opt_def)

text \<open>
  C6. An optional parameter the caller leaves unset has the value \<open>None\<close>. The client
  puts it into the \<open>params\<close> dictionary as \<open>None\<close> (for
  \<open>min_bookmark_id_for_recent_illust\<close>, as the one-element tuple holding \<open>None\<close>), and
  the transport leaves such an entry out of the query. So for every endpoint method and
  every optional parameter the caller leaves unset, the parameter's name is not among the
  names sent; and no request sends a pair whose value is \<open>None\<close>, in the query or in the
  form body. In particular \<open>fetch_illustrations_recommended\<close> without
  \<open>min_bookmark_id_for_recent_illustrations\<close> sends no \<open>min_bookmark_id_for_recent_illust\<close>.
\<close>

theorem unset_parameters_not_sent:
  "''duration'' \<notin> sent_keys (search_illustrations_request word search_target sort' None offset)
   \<and> ''offset'' \<notin> sent_keys (search_illustrations_request word search_target sort' duration None)
   \<and> ''offset'' \<notin> sent_keys
        (fetch_illustration_comments_request env illustration_id None include_total_comments)
   \<and> ''offset'' \<notin> sent_keys (fetch_illustration_related_request illustration_id None)
   \<and> ''offset'' \<notin> sent_keys (fetch_illustrations_following_request visibility None)
   \<and> ''max_bookmark_id_for_recommend'' \<notin> sent_keys
        (fetch_illustrations_recommended_request env content_type include_ranking_illustrations
           None min_bookmark_id_for_recent_illustrations offset bookmark_illust_ids
           include_ranking_label)
   \<and> ''min_bookmark_id_for_recent_illust'' \<notin> sent_keys
        (fetch_illustrations_recommended_request env content_type include_ranking_illustrations
           max_bookmark_id_for_recommend None offset bookmark_illust_ids include_ranking_label)
   \<and> ''offset'' \<notin> sent_keys
        (fetch_illustrations_recommended_request env content_type include_ranking_illustrations
           max_bookmark_id_for_recommend min_bookmark_id_for_recent_illustrations None
           bookmark_illust_ids include_ranking_label)
   \<and> ''bookmark_illust_ids'' \<notin> sent_keys
        (fetch_illustrations_recommended_request env content_type include_ranking_illustrations
           max_bookmark_id_for_recommend min_bookmark_id_for_recent_illustrations offset None
           include_ranking_label)
   \<and> ''date'' \<notin> sent_keys (fetch_illustrations_ranking_request mode None offset)
   \<and> ''offset'' \<notin> sent_keys (fetch_illustrations_ranking_request mode date None)
   \<and> ''type'' \<notin> sent_keys (fetch_user_illustrations_request user_id None offset)
   \<and> ''offset'' \<notin> sent_keys (fetch_user_illustrations_request user_id type' None)
   \<and> ''max_bookmark_id'' \<notin> sent_keys
        (fetch_user_bookmarks_request user_id visibility None tag)
   \<and> ''tag'' \<notin> sent_keys (fetch_user_bookmarks_request user_id visibility max_bookmark_id None)
   \<and> ''offset'' \<notin> sent_keys (fetch_user_bookmark_tags_request visibility None)
   \<and> ''offset'' \<notin> sent_keys (fetch_following_request user_id visibility None)
   \<and> ''offset'' \<notin> sent_keys (fetch_followers_request user_id None)
   \<and> ''offset'' \<notin> sent_keys (fetch_my_pixiv_request user_id None)
   \<and> PNone \<notin> snd ` set (outgoing_query req)
   \<and> PNone \<notin> snd ` set (outgoing_form req)
   \<and> (\<exists>ps. params (fetch_illustrations_recommended_request env content_type
                   include_ranking_illustrations max_bookmark_id_for_recommend None offset
                   bookmark_illust_ids include_ranking_label) = Some ps
        \<and> map_of ps ''min_bookmark_id_for_recent_illust'' = Some (PTuple [PNone]))"
  by (intro conjI)
     (rule search_illustrations_unset fetch_illustration_comments_unset
        fetch_illustration_related_unset fetch_illustrations_following_unset
        fetch_illustrations_recommended_unset fetch_illustrations_ranking_unset
        fetch_user_illustrations_unset fetch_user_bookmarks_unset
        fetch_user_bookmark_tags_unset fetch_following_unset fetch_followers_unset
        fetch_my_pixiv_unset outgoing_None recommended_params_unset)+

section \<open>Back-references of the models\<close>

lemma authenticated_logged_in_client: "authenticated logged_in_client"
  using auth_call_token [of "Password ''user'' ''pw''"]
  by (simp add: logged_in_client_def authenticated_def)

lemma obj_id_logged_in_client: "obj_id logged_in_client = 1"
  using auth_call_token [of "Password ''user'' ''pw''"]
  by (simp add: logged_in_client_def)

lemma endpoint_returned:
  "send env (session c) req = Returned response \<Longrightarrow>
   status_code response div 100 \<noteq> 4 \<Longrightarrow>
   json_loads env (resp_text response) = Some v \<Longrightarrow>
   endpoint env req post c = (post v, logged c req)"
  by (simp add: endpoint_def request_json_returned)

lemma trending_result_sample:
  "fetch_trending_tags_result self trending_json =
     Inr (ListObj [DictObj [(''illustration'', Model (Illustration [(''id'', PInt 5)] None)),
                            (''tag'', Val (PStr ''sky'')),
                            (''translated_name'', Val (PStr ''Sky''))]])"
  by (simp add: fetch_trending_tags_result_def trending_json_def bind_def getitem_def
        comprehension_def py_iter_def trending_entry_def new_Illustration_def kwargs_def)

text \<open>
  C8 at the failing input. An authenticated client (identity 1) calls
  \<open>fetch_trending_tags\<close> and the response lists one trending tag. The Illustration built
  from it has no back-reference: the constructor is called without \<open>client=self\<close>.
\<close>

theorem fetch_trending_tags_no_back_reference:
  "authenticated logged_in_client
   \<and> obj_id logged_in_client = 1
   \<and> fst (fetch_trending_tags (sample_env (reply 200 trending_body)) logged_in_client)
      = Inr (ListObj [DictObj [(''illustration'', Model (Illustration [(''id'', PInt 5)] None)),
                               (''tag'', Val (PStr ''sky'')),
                               (''translated_name'', Val (PStr ''Sky''))]])"
  using endpoint_returned
    [of "sample_env (reply 200 trending_body)" logged_in_client fetch_trending_tags_request
        "\<lparr> status_code = 200, resp_text = trending_body \<rparr>" trending_json
        "fetch_trending_tags_result (obj_id logged_in_client)"]
  by (simp add: fetch_trending_tags_def require_auth_def authenticated_logged_in_client
        obj_id_logged_in_client reply_def sample_loads_trending trending_result_sample)

text \<open>The sibling methods pass \<open>client=self\<close>: every model they build refers to the
  client that fetched it.\<close>

lemma map_res_Illustration:
  "map_res (\<lambda>illust. new_Illustration illust (Some self)) xs = Inr ys \<Longrightarrow>
   y \<in> set ys \<Longrightarrow> \<exists>d. y = Model (Illustration d (Some self))"
proof (induction xs arbitrary: ys)
  case Nil
  then show ?case by simp
next
  case (Cons x xs)
  then show ?case
    by (auto simp: new_Illustration_def bind_def split: sum.splits)
qed

lemma illustrations_of_client:
  "illustrations_of self response key = Inr (ListObj ys) \<Longrightarrow> y \<in> set ys \<Longrightarrow>
   \<exists>d. y = Model (Illustration d (Some self))"
  by (auto simp: illustrations_of_def comprehension_def bind_def split: sum.splits
           dest: map_res_Illustration)

section \<open>fetch_illustrations_following and its offset\<close>

lemma endpoint_state: "snd (endpoint env req post c) = logged c req"
  using request_json_state [of env req c]
  by (cases "request_json env req c"; cases "fst (request_json env req c)")
     (simp_all add: endpoint_def)

text \<open>
  C10. \<open>fetch_illustrations_following\<close> does the same whatever its \<open>offset\<close> argument is:
  the same result and the same state, hence the same request. The \<open>params\<close> of the request
  hold \<open>restrict\<close>, taken from \<open>visibility\<close>, and nothing else; no \<open>offset\<close> is sent. On an
  authenticated client that request is the one call that reaches the transport.
\<close>

theorem fetch_illustrations_following_ignores_offset:
  "fetch_illustrations_following env visibility offset c
     = fetch_illustrations_following env visibility offset' c
   \<and> fetch_illustrations_following_request visibility offset
     = fetch_illustrations_following_request visibility offset'
   \<and> params (fetch_illustrations_following_request visibility offset)
     = Some [(''restrict'', enum_value visibility)]
   \<and> ''offset'' \<notin> sent_keys (fetch_illustrations_following_request visibility offset)
   \<and> (authenticated c \<longrightarrow>
        calls (session (snd (fetch_illustrations_following env visibility offset c)))
          = calls (session c)
            @ [get_request ''/v2/illust/follow'' [(''restrict'', enum_value visibility)]])"
proof -
  have r: "fetch_illustrations_following_request visibility offset
             = get_request ''/v2/illust/follow'' [(''restrict'', enum_value visibility)]"
    for offset
    by (simp add: fetch_illustrations_following_request_def)
  have a: "fetch_illustrations_following env visibility offset c
     = fetch_illustrations_following env visibility offset' c"
    by (simp add: fetch_illustrations_following_def r)
  have p: "params (fetch_illustrations_following_request visibility offset)
     = Some [(''restrict'', enum_value visibility)]"
    by (simp add: r get_request_def)
  have l: "authenticated c \<Longrightarrow>
        calls (session (snd (fetch_illustrations_following env visibility offset c)))
          = calls (session c)
            @ [get_request ''/v2/illust/follow'' [(''restrict'', enum_value visibility)]]"
    by (simp add: fetch_illustrations_following_def require_auth_def r endpoint_state)
  from a p l r [of offset] r [of offset'] fetch_illustrations_following_unset [of visibility offset]
  show ?thesis by simp
qed

theorem fetch_illustrations_following_ignores_offset_witness:
  "authenticated logged_in_client
   \<and> fetch_illustrations_following (sample_env (reply 200 page_body))
        (Enum ''PUBLIC'' (PStr ''public'')) (Some 30) logged_in_client
      = fetch_illustrations_following (sample_env (reply 200 page_body))
        (Enum ''PUBLIC'' (PStr ''public'')) None logged_in_client
   \<and> calls (session (snd (fetch_illustrations_following (sample_env (reply 200 page_body))
        (Enum ''PUBLIC'' (PStr ''public'')) (Some 30) logged_in_client)))
      = calls (session logged_in_client)
        @ [get_request ''/v2/illust/follow'' [(''restrict'', PStr ''public'')]]"
proof -
  note t = fetch_illustrations_following_ignores_offset
    [of "sample_env (reply 200 page_body)" "Enum ''PUBLIC'' (PStr ''public'')" "Some 30"
        logged_in_client None]
  from t have a: "fetch_illustrations_following (sample_env (reply 200 page_body))
        (Enum ''PUBLIC'' (PStr ''public'')) (Some 30) logged_in_client
      = fetch_illustrations_following (sample_env (reply 200 page_body))
        (Enum ''PUBLIC'' (PStr ''public'')) None logged_in_client"
    by (rule conjunct1)
  note u = t [THEN conjunct2, THEN conjunct2, THEN conjunct2, THEN conjunct2, THEN mp,
               OF authenticated_logged_in_client]
  from u
  have b: "calls (session (snd (fetch_illustrations_following (sample_env (reply 200 page_body))
        (Enum ''PUBLIC'' (PStr ''public'')) (Some 30) logged_in_client)))
      = calls (session logged_in_client)
        @ [get_request ''/v2/illust/follow'' [(''restrict'', PStr ''public'')]]"
    by simp
  from authenticated_logged_in_client a b show ?thesis by (intro conjI)
qed

end
